theory Spec2Isabelle
  imports Main
begin

section \<open>The request pipeline of \<open>async_http/app.py\<close>\<close>

text \<open>
  \<open>AsyncHTTPServer.handle_request\<close> takes a request through the pre-handler middleware,
  the router and the handler, recovers from what they raise, runs the post-handler
  middleware and hands the response to one of two callbacks. The middleware, the router,
  the handler and the error handler are callables the server is configured with; each is
  modelled by what a call returns or raises for its arguments. Every call the pipeline
  makes is recorded in a trace, so that "is invoked", "is never invoked" and "exactly
  once" are statements about that trace.
\<close>

subsection \<open>Exceptions\<close>

text \<open>
  What a collaborator can raise. \<open>ServerError\<close> and \<open>AsyncHTTPException\<close> are the two
  classes imported from \<open>exceptions.py\<close>; \<open>Exception\<close> stands for an instance of any other
  class below \<open>Exception\<close>, \<open>BaseException\<close> for an instance of a class outside it other
  than \<open>CancelledError\<close> (\<open>KeyboardInterrupt\<close>, \<open>SystemExit\<close>, \<open>GeneratorExit\<close>). The
  string is the message.
\<close>

datatype exc =
    CancelledError
  | ServerError string
  | AsyncHTTPException string
  | Exception string
  | BaseException string

fun str_exc :: "exc \<Rightarrow> string" where
  "str_exc CancelledError = []"
| "str_exc (ServerError m) = m"
| "str_exc (AsyncHTTPException m) = m"
| "str_exc (Exception m) = m"
| "str_exc (BaseException m) = m"

subsection \<open>Values\<close>

type_synonym headers = "(string \<times> string) list"

datatype 'a kwarg = Default | Given 'a

text \<open>
  Modelled from the spec: \<open>HTTPResponse\<close> (\<open>response.py\<close> is not among the sources) is the
  Buffered response of section 3, with a body, a status code, a header mapping and a
  content type. The record keeps the arguments of the constructor call; a keyword
  argument the call leaves out is \<open>Default\<close>.
\<close>

record HTTPResponse =
  body :: string
  status :: int
  headers :: "headers kwarg"
  content_type :: "string option kwarg"

text \<open>
  The objects the variable \<open>response\<close> can hold: \<open>None\<close>, another falsy object, an
  \<open>HTTPResponse\<close>, a \<open>StreamingHTTPResponse\<close>, an awaitable together with what awaiting
  it gives, or any other object. \<open>Inl\<close> is a raised exception.
\<close>

datatype pyval =
    PyNone
  | Falsy string
  | Object string
  | Buffered HTTPResponse
  | Streaming string
  | Awaitable "exc + pyval"

text \<open>
  Modelled from the spec: the two response classes define no truth value of their own
  (section 4.1: a truthy result is a non-empty Response), so only \<open>None\<close> and the other
  falsy objects are false.
\<close>

fun truthy :: "pyval \<Rightarrow> bool" where
  "truthy PyNone = False"
| "truthy (Falsy _) = False"
| "truthy _ = True"

fun isawaitable :: "pyval \<Rightarrow> bool" where
  "isawaitable (Awaitable _) = True"
| "isawaitable _ = False"

fun isinstance_StreamingHTTPResponse :: "pyval \<Rightarrow> bool" where
  "isinstance_StreamingHTTPResponse (Streaming _) = True"
| "isinstance_StreamingHTTPResponse _ = False"

text \<open>\<open>await x\<close> for an awaitable \<open>x\<close>.\<close>

fun await :: "pyval \<Rightarrow> exc + pyval" where
  "await (Awaitable r) = r"
| "await v = Inr v"

text \<open>
  The idiom \<open>r = f(...); if isawaitable(r): r = await r\<close>, applied to the outcome of the
  call \<open>f(...)\<close>.
\<close>

definition resolved :: "exc + pyval \<Rightarrow> exc + pyval" where
  "resolved r = (case r of Inl e \<Rightarrow> Inl e
                 | Inr v \<Rightarrow> if isawaitable v then await v else Inr v)"

subsection \<open>The request, the handler, the server\<close>

text \<open>
  Modelled from the spec: \<open>Request\<close> (\<open>request.py\<close> is not among the sources) with the three
  attributes \<open>handle_request\<close> assigns; \<open>payload\<close> stands for everything else in it.
\<close>

record Request =
  payload :: string
  app :: "string option"
  uri_template :: "string option"
  endpoint :: "string option"

record handler =
  dunder_name :: string
  dunder_blueprintname :: "string option"
  call :: "Request \<Rightarrow> string list \<Rightarrow> (string \<times> string) list \<Rightarrow> exc + pyval"

text \<open>
  Modelled from the spec: the two methods of \<open>ErrorHandler\<close> (\<open>error_handler.py\<close> is not
  among the sources) are the fields \<open>error_handler_response\<close> and \<open>error_handler_default\<close>
  of the server below. By section 6 of the spec the first returns a response or an
  awaitable, or raises, and the second returns a response and must not fail. The other
  fields are those of \<open>__init__\<close> that \<open>handle_request\<close> reads; \<open>router\<close> is
  \<open>self.router.get\<close>.
\<close>

record AsyncHTTPServer =
  name :: string
  router :: "Request \<Rightarrow> exc + (handler option \<times> string list \<times> (string \<times> string) list \<times> string option)"
  error_handler_response :: "Request \<Rightarrow> exc \<Rightarrow> exc + pyval"
  error_handler_default :: "Request \<Rightarrow> exc \<Rightarrow> pyval"
  request_middleware :: "(Request \<Rightarrow> exc + pyval) list"
  response_middleware :: "(Request \<Rightarrow> pyval \<Rightarrow> exc + pyval) list"
  debug :: bool

text \<open>
  What the code takes from outside the file. \<open>asyncio.CancelledError\<close> derives from
  \<open>Exception\<close> up to Python 3.7 and from \<open>BaseException\<close> from 3.8 on, so the runtime says
  which. \<open>exceptions.py\<close> is not among the sources, so whether \<open>ServerError\<close> derives from
  \<open>AsyncHTTPException\<close> is a parameter too. \<open>format_exc\<close> is \<open>traceback.format_exc()\<close>
  while the given exception is being handled. The last four are the methods
  \<open>handle_request\<close> calls on the object an awaited handler result resolves to, and on that
  object's context; an object without the method raises.
\<close>

record runtime =
  CancelledError_is_Exception :: bool
  ServerError_is_AsyncHTTPException :: bool
  format_exc :: "exc \<Rightarrow> string"
  body_method :: "pyval \<Rightarrow> exc + string"
  context_method :: "pyval \<Rightarrow> exc + pyval"
  GetResponseHeaders_method :: "pyval \<Rightarrow> exc + headers"
  status_method :: "pyval \<Rightarrow> exc + int"

text \<open>
  Modelled from the spec: \<open>ServerError\<close> derives from \<open>Exception\<close> (section 4.3: the
  configuration fault is raised and handled by the recovery cascade), as
  \<open>AsyncHTTPException\<close> does.
\<close>

fun isinstance_Exception :: "runtime \<Rightarrow> exc \<Rightarrow> bool" where
  "isinstance_Exception rt CancelledError = CancelledError_is_Exception rt"
| "isinstance_Exception rt (BaseException _) = False"
| "isinstance_Exception rt _ = True"

fun isinstance_AsyncHTTPException :: "runtime \<Rightarrow> exc \<Rightarrow> bool" where
  "isinstance_AsyncHTTPException rt (AsyncHTTPException _) = True"
| "isinstance_AsyncHTTPException rt (ServerError _) = ServerError_is_AsyncHTTPException rt"
| "isinstance_AsyncHTTPException rt _ = False"

subsection \<open>The trace\<close>

datatype event =
    RequestMiddleware nat Request
  | RouterGet Request
  | HandlerCall string Request
  | LoggerInfo string
  | LoggerError string
  | ErrorHandlerResponse Request exc
  | ErrorHandlerDefault Request exc
  | ResponseMiddleware nat Request pyval
  | WriteCallback pyval
  | StreamCallback pyval

fun is_callback :: "event \<Rightarrow> bool" where
  "is_callback (WriteCallback _) = True"
| "is_callback (StreamCallback _) = True"
| "is_callback _ = False"

fun is_dispatch :: "event \<Rightarrow> bool" where
  "is_dispatch (RouterGet _) = True"
| "is_dispatch (HandlerCall _ _) = True"
| "is_dispatch _ = False"

fun is_request_middleware :: "event \<Rightarrow> bool" where
  "is_request_middleware (RequestMiddleware _ _) = True"
| "is_request_middleware _ = False"

fun is_response_middleware :: "event \<Rightarrow> bool" where
  "is_response_middleware (ResponseMiddleware _ _ _) = True"
| "is_response_middleware _ = False"

subsection \<open>The middleware chain runners\<close>

text \<open>
  The loop of \<open>_run_request_middleware\<close>, from the \<open>i\<close>-th middleware on. It returns the
  calls it made and what the function returns or raises.
\<close>

fun request_middleware_loop ::
  "nat \<Rightarrow> (Request \<Rightarrow> exc + pyval) list \<Rightarrow> Request \<Rightarrow> event list \<times> (exc + pyval)" where
  "request_middleware_loop i [] request = ([], Inr PyNone)"
| "request_middleware_loop i (middleware # rest) request =
     (case resolved (middleware request) of
        Inl e \<Rightarrow> ([RequestMiddleware i request], Inl e)
      | Inr response \<Rightarrow>
          if truthy response then ([RequestMiddleware i request], Inr response)
          else (case request_middleware_loop (Suc i) rest request of
                  (t, r) \<Rightarrow> (RequestMiddleware i request # t, r)))"

definition run_request_middleware ::
  "AsyncHTTPServer \<Rightarrow> Request \<Rightarrow> event list \<times> (exc + pyval)" where
  "run_request_middleware self request =
     (if request_middleware self \<noteq> []
      then request_middleware_loop 0 (request_middleware self) request
      else ([], Inr PyNone))"

text \<open>The loop of \<open>_run_response_middleware\<close>; a truthy result is the \<open>break\<close>.\<close>

fun response_middleware_loop ::
  "nat \<Rightarrow> (Request \<Rightarrow> pyval \<Rightarrow> exc + pyval) list \<Rightarrow> Request \<Rightarrow> pyval
     \<Rightarrow> event list \<times> (exc + pyval)" where
  "response_middleware_loop i [] request response = ([], Inr response)"
| "response_middleware_loop i (middleware # rest) request response =
     (case resolved (middleware request response) of
        Inl e \<Rightarrow> ([ResponseMiddleware i request response], Inl e)
      | Inr response' \<Rightarrow>
          if truthy response' then ([ResponseMiddleware i request response], Inr response')
          else (case response_middleware_loop (Suc i) rest request response of
                  (t, r) \<Rightarrow> (ResponseMiddleware i request response # t, r)))"

definition run_response_middleware ::
  "AsyncHTTPServer \<Rightarrow> Request \<Rightarrow> pyval \<Rightarrow> event list \<times> (exc + pyval)" where
  "run_response_middleware self request response =
     (if response_middleware self \<noteq> []
      then response_middleware_loop 0 (response_middleware self) request response
      else ([], Inr response))"

subsection \<open>\<open>handle_request\<close>\<close>

fun join :: "string \<Rightarrow> string list \<Rightarrow> string" where
  "join sep [] = []"
| "join sep [p] = p"
| "join sep (p # q # ps) = p @ sep @ join sep (q # ps)"

definition build_endpoint_name :: "AsyncHTTPServer \<Rightarrow> string list \<Rightarrow> string" where
  "build_endpoint_name self parts = join ''.'' (name self # parts)"

text \<open>
  Lines 124 to 132: \<open>getattr(handler, "__blueprintname__", False)\<close> is falsy when the
  attribute is absent (\<open>None\<close> here) or the empty string.
\<close>

definition endpoint_name :: "AsyncHTTPServer \<Rightarrow> handler \<Rightarrow> string" where
  "endpoint_name self h =
     (case dunder_blueprintname h of
        None \<Rightarrow> build_endpoint_name self [dunder_name h]
      | Some b \<Rightarrow>
          if b = [] then build_endpoint_name self [dunder_name h]
          else build_endpoint_name self [b, dunder_name h])"

text \<open>
  The frame of one call of \<open>handle_request\<close>: the request object, the local variables
  \<open>response\<close> and \<open>cancelled\<close>, the exception in flight, and the calls made so far.
\<close>

record frame =
  request :: Request
  response :: pyval
  cancelled :: bool
  raised :: "exc option"
  trace :: "event list"

definition emit :: "event list \<Rightarrow> frame \<Rightarrow> frame" where
  "emit t f = f\<lparr>trace := trace f @ t\<rparr>"

definition raise :: "exc \<Rightarrow> frame \<Rightarrow> frame" where
  "raise e f = f\<lparr>raised := Some e\<rparr>"

definition server_error_message :: string where
  "server_error_message =
     [CHR 0x27] @ ''None'' @ [CHR 0x27] @ '' was returned while requesting a handler from the router''"

text \<open>Lines 136 to 146: the handler's result, already assigned to \<open>response\<close>.\<close>

definition normalize_result :: "runtime \<Rightarrow> frame \<Rightarrow> frame" where
  "normalize_result rt f =
     (if isawaitable (response f) then
        (let f = emit [LoggerInfo ''got response from function''] f in
         case await (response f) of
           Inl e \<Rightarrow> raise e f
         | Inr res \<Rightarrow>
            (case body_method rt res of
               Inl e \<Rightarrow> raise e f
             | Inr b \<Rightarrow>
                (case context_method rt res of
                   Inl e \<Rightarrow> raise e f
                 | Inr ctx \<Rightarrow>
                    (case GetResponseHeaders_method rt ctx of
                       Inl e \<Rightarrow> raise e f
                     | Inr hs \<Rightarrow>
                        (case status_method rt res of
                           Inl e \<Rightarrow> raise e f
                         | Inr s \<Rightarrow>
                            f\<lparr>response := Buffered
                                \<lparr>body = b, status = s, headers = Given hs,
                                 content_type = Given (map_of hs ''Content-Type'')\<rparr>\<rparr>)))))
      else f)"

text \<open>Lines 113 to 146: the branch taken when no pre-handler middleware answered.\<close>

definition execute_handler :: "runtime \<Rightarrow> AsyncHTTPServer \<Rightarrow> frame \<Rightarrow> frame" where
  "execute_handler rt self f =
     (let f = emit [RouterGet (request f)] f in
      case router self (request f) of
        Inl e \<Rightarrow> raise e f
      | Inr (h, args, kwargs, uri) \<Rightarrow>
         (let f = f\<lparr>request := (request f)\<lparr>uri_template := uri\<rparr>\<rparr> in
          case h of
            None \<Rightarrow> raise (ServerError server_error_message) f
          | Some h \<Rightarrow>
             (let f = f\<lparr>request := (request f)\<lparr>endpoint := Some (endpoint_name self h)\<rparr>\<rparr>;
                  f = emit [HandlerCall (dunder_name h) (request f)] f
              in case call h (request f) args kwargs of
                   Inl e \<Rightarrow> raise e f
                 | Inr v \<Rightarrow> normalize_result rt (f\<lparr>response := v\<rparr>))))"

text \<open>Lines 104 to 146: the body of the outer \<open>try\<close>.\<close>

definition try_body :: "runtime \<Rightarrow> AsyncHTTPServer \<Rightarrow> frame \<Rightarrow> frame" where
  "try_body rt self f =
     (let f = f\<lparr>request := (request f)\<lparr>app := Some (name self)\<rparr>\<rparr> in
      case run_request_middleware self (request f) of
        (t, Inl e) \<Rightarrow> raise e (emit t f)
      | (t, Inr v) \<Rightarrow>
         (let f = (emit t f)\<lparr>response := v\<rparr> in
          if \<not> truthy (response f) then execute_handler rt self f else f))"

text \<open>
  Lines 163 to 178: the inner \<open>except Exception as e\<close>, entered with the exception the
  inner \<open>try\<close> raised. An exception that clause does not catch stays in flight.
\<close>

definition secondary_recovery :: "runtime \<Rightarrow> AsyncHTTPServer \<Rightarrow> exc \<Rightarrow> frame \<Rightarrow> frame" where
  "secondary_recovery rt self e f =
     (if isinstance_Exception rt e then
        (if isinstance_AsyncHTTPException rt e then
           (emit [ErrorHandlerDefault (request f) e] f)
             \<lparr>response := error_handler_default self (request f) e\<rparr>
         else if debug self then
           f\<lparr>response := Buffered
               \<lparr>body = ''Error while handling error: '' @ str_exc e @ [CHR 0x0A] @ ''Stack: ''
                         @ format_exc rt e,
                status = 500, headers = Default, content_type = Default\<rparr>\<rparr>
         else
           f\<lparr>response := Buffered
               \<lparr>body = ''An error occurred while handling an error'',
                status = 500, headers = Default, content_type = Default\<rparr>\<rparr>)
      else raise e f)"

text \<open>Lines 158 to 162, then the clause above: the outer \<open>except Exception as e\<close>.\<close>

definition primary_recovery :: "runtime \<Rightarrow> AsyncHTTPServer \<Rightarrow> exc \<Rightarrow> frame \<Rightarrow> frame" where
  "primary_recovery rt self e f =
     (let f = emit [LoggerError ''Exception: '', ErrorHandlerResponse (request f) e] f in
      case error_handler_response self (request f) e of
        Inl e2 \<Rightarrow> secondary_recovery rt self e2 f
      | Inr v \<Rightarrow>
         (let f = f\<lparr>response := v\<rparr> in
          if isawaitable (response f) then
            (case await (response f) of
               Inl e2 \<Rightarrow> secondary_recovery rt self e2 f
             | Inr v' \<Rightarrow> f\<lparr>response := v'\<rparr>)
          else f))"

text \<open>
  Lines 147 to 154: the two \<open>except\<close> clauses of the outer \<open>try\<close>, in their order. An
  exception neither clause catches stays in flight.
\<close>

definition except_clauses :: "runtime \<Rightarrow> AsyncHTTPServer \<Rightarrow> frame \<Rightarrow> frame" where
  "except_clauses rt self f =
     (case raised f of
        None \<Rightarrow> f
      | Some e \<Rightarrow>
          if e = CancelledError then f\<lparr>response := PyNone, cancelled := True, raised := None\<rparr>
          else if isinstance_Exception rt e then primary_recovery rt self e (f\<lparr>raised := None\<rparr>)
          else f)"

text \<open>
  Lines 179 to 199: the \<open>finally\<close> clause. \<open>raise CancelledError()\<close> replaces whatever is
  in flight; otherwise the exception in flight is raised again when the clause ends.
\<close>

definition finally_clause :: "AsyncHTTPServer \<Rightarrow> frame \<Rightarrow> frame" where
  "finally_clause self f =
     (let f =
        (if response f \<noteq> PyNone then
           (case run_response_middleware self (request f) (response f) of
              (t, Inr v) \<Rightarrow> (emit t f)\<lparr>response := v\<rparr>
            | (t, Inl e) \<Rightarrow>
                if e = CancelledError then (emit t f)\<lparr>response := PyNone, cancelled := True\<rparr>
                else emit (t @ [LoggerError
                  ''Exception occurred in one of response middleware handlers'']) f)
         else f)
      in if cancelled f then raise CancelledError f else f)"

text \<open>
  Lines 201 to 205, reached only when nothing is in flight. \<open>write_callback\<close> and
  \<open>stream_callback\<close> are the caller's: a callback is modelled by what its call, awaited
  for \<open>stream_callback\<close>, raises for the response it is given, \<open>None\<close> when it returns.
  The two lines are outside every \<open>try\<close>, so what the callback raises reaches the caller.
\<close>

type_synonym callback = "pyval \<Rightarrow> exc option"

definition output_router :: "callback \<Rightarrow> callback \<Rightarrow> frame \<Rightarrow> frame" where
  "output_router write_callback stream_callback f =
     (case raised f of
        Some e \<Rightarrow> f
      | None \<Rightarrow>
          if isinstance_StreamingHTTPResponse (response f)
          then (emit [StreamCallback (response f)] f)\<lparr>raised := stream_callback (response f)\<rparr>
          else (emit [WriteCallback (response f)] f)\<lparr>raised := write_callback (response f)\<rparr>)"

definition enter :: "Request \<Rightarrow> frame" where
  "enter rq = \<lparr>request = rq, response = PyNone, cancelled = False, raised = None, trace = []\<rparr>"

text \<open>
  \<open>handle_request\<close>: in the frame it returns, \<open>raised\<close> is what the caller sees (\<open>None\<close>
  when the coroutine returns) and \<open>trace\<close> is every call made.
\<close>

definition handle_request ::
  "runtime \<Rightarrow> AsyncHTTPServer \<Rightarrow> Request \<Rightarrow> callback \<Rightarrow> callback \<Rightarrow> frame" where
  "handle_request rt self rq write_callback stream_callback =
     output_router write_callback stream_callback
       (finally_clause self (except_clauses rt self (try_body rt self (enter rq))))"

subsection \<open>Example configurations\<close>

text \<open>
  Two runtimes, a request, and servers for the configurations the properties below are
  evaluated on. In both runtimes an \<open>Object\<close> has the methods of a function result.
\<close>

definition python38 :: runtime where
  "python38 =
     \<lparr>CancelledError_is_Exception = False,
      ServerError_is_AsyncHTTPException = True,
      format_exc = (\<lambda>e. ''Traceback (most recent call last): '' @ str_exc e),
      body_method = (\<lambda>v. case v of Object s \<Rightarrow> Inr s | _ \<Rightarrow> Inl (Exception ''AttributeError'')),
      context_method = (\<lambda>v. case v of Object s \<Rightarrow> Inr (Object ''context'')
                                | _ \<Rightarrow> Inl (Exception ''AttributeError'')),
      GetResponseHeaders_method = (\<lambda>v. Inr [(''Content-Type'', ''text/plain'')]),
      status_method = (\<lambda>v. Inr 200)\<rparr>"

definition python37 :: runtime where
  "python37 = python38\<lparr>CancelledError_is_Exception := True\<rparr>"

text \<open>A callback that returns, and one that finds the connection gone.\<close>

definition accepting :: callback where
  "accepting r = None"

definition refusing :: callback where
  "refusing r = Some (Exception ''connection lost'')"

definition get_index :: Request where
  "get_index = \<lparr>payload = ''GET /'', app = None, uri_template = None, endpoint = None\<rparr>"

definition ok_response :: pyval where
  "ok_response =
     Buffered \<lparr>body = ''hello'', status = 200, headers = Default, content_type = Default\<rparr>"

definition hello :: handler where
  "hello = \<lparr>dunder_name = ''hello'', dunder_blueprintname = None,
            call = (\<lambda>rq args kwargs. Inr ok_response)\<rparr>"

definition hello_server :: AsyncHTTPServer where
  "hello_server =
     \<lparr>name = ''app'',
      router = (\<lambda>rq. Inr (Some hello, [], [], Some ''/'')),
      error_handler_response = (\<lambda>rq e. Inr (Buffered
         \<lparr>body = str_exc e, status = 500, headers = Default, content_type = Default\<rparr>)),
      error_handler_default = (\<lambda>rq e. Buffered
         \<lparr>body = ''Error: '' @ str_exc e, status = 500, headers = Default,
          content_type = Default\<rparr>),
      request_middleware = [],
      response_middleware = [],
      debug = False\<rparr>"

text \<open>A handler that calls \<open>sys.exit()\<close>.\<close>

definition exiting :: handler where
  "exiting = hello\<lparr>call := (\<lambda>rq args kwargs. Inl (BaseException ''SystemExit''))\<rparr>"

definition exiting_server :: AsyncHTTPServer where
  "exiting_server = hello_server\<lparr>router := (\<lambda>rq. Inr (Some exiting, [], [], Some ''/''))\<rparr>"

text \<open>
  Three pre-handler middleware: the first returns \<open>None\<close>, the second an awaitable that
  resolves to a response, the third would raise.
\<close>

definition maintenance :: pyval where
  "maintenance =
     Buffered \<lparr>body = ''down for maintenance'', status = 503, headers = Default,
               content_type = Default\<rparr>"

definition gate_server :: AsyncHTTPServer where
  "gate_server = hello_server
     \<lparr>request_middleware :=
        [\<lambda>rq. Inr PyNone, \<lambda>rq. Inr (Awaitable (Inr maintenance)),
         \<lambda>rq. Inl (Exception ''third middleware'')]\<rparr>"

text \<open>Two pre-handler middleware with falsy results.\<close>

definition quiet_server :: AsyncHTTPServer where
  "quiet_server = hello_server
     \<lparr>request_middleware := [\<lambda>rq. Inr PyNone, \<lambda>rq. Inr (Awaitable (Inr (Falsy ''0'')))]\<rparr>"

text \<open>
  Three post-handler middleware: the first returns \<open>None\<close>, the second an awaitable that
  resolves to a replacement, the third would raise.
\<close>

definition stamp_server :: AsyncHTTPServer where
  "stamp_server = hello_server
     \<lparr>response_middleware :=
        [\<lambda>rq r. Inr PyNone, \<lambda>rq r. Inr (Awaitable (Inr maintenance)),
         \<lambda>rq r. Inl (Exception ''third middleware'')]\<rparr>"

definition calm_server :: AsyncHTTPServer where
  "calm_server = hello_server
     \<lparr>response_middleware := [\<lambda>rq r. Inr PyNone, \<lambda>rq r. Inr (Falsy ''0'')]\<rparr>"

text \<open>A handler whose result must be awaited and resolves to a function result.\<close>

definition deferred :: handler where
  "deferred = hello\<lparr>call := (\<lambda>rq args kwargs. Inr (Awaitable (Inr (Object ''payload''))))\<rparr>"

definition deferred_server :: AsyncHTTPServer where
  "deferred_server = hello_server\<lparr>router := (\<lambda>rq. Inr (Some deferred, [], [], Some ''/''))\<rparr>"

text \<open>A router that knows no handler for the request.\<close>

definition unrouted_server :: AsyncHTTPServer where
  "unrouted_server = hello_server\<lparr>router := (\<lambda>rq. Inr (None, [], [], None))\<rparr>"

text \<open>The same, with a post-handler middleware that is cancelled while it is awaited.\<close>

definition unrouted_timeout_server :: AsyncHTTPServer where
  "unrouted_timeout_server = unrouted_server
     \<lparr>response_middleware := [\<lambda>rq r. Inr (Awaitable (Inl CancelledError))]\<rparr>"

text \<open>A handler that fails, and an error handler that fails on top of it.\<close>

definition failing :: handler where
  "failing = hello\<lparr>call := (\<lambda>rq args kwargs. Inl (Exception ''boom''))\<rparr>"

definition broken_server :: AsyncHTTPServer where
  "broken_server = hello_server
     \<lparr>router := (\<lambda>rq. Inr (Some failing, [], [], Some ''/'')),
      error_handler_response := (\<lambda>rq e. Inl (Exception ''no template''))\<rparr>"

definition verbose_server :: AsyncHTTPServer where
  "verbose_server = broken_server\<lparr>debug := True\<rparr>"

definition teapot_server :: AsyncHTTPServer where
  "teapot_server = broken_server
     \<lparr>error_handler_response := (\<lambda>rq e. Inr (Awaitable (Inl (AsyncHTTPException ''teapot''))))\<rparr>"

text \<open>
  A handler that fails and an error handler whose awaitable is cancelled while it is
  awaited; one post-handler middleware.
\<close>

definition interrupted_server :: AsyncHTTPServer where
  "interrupted_server = hello_server
     \<lparr>router := (\<lambda>rq. Inr (Some failing, [], [], Some ''/'')),
      error_handler_response := (\<lambda>rq e. Inr (Awaitable (Inl CancelledError))),
      response_middleware := [\<lambda>rq r. Inr PyNone]\<rparr>"

text \<open>Post-handler middleware that are cancelled, fail, or are interrupted.\<close>

definition timeout_server :: AsyncHTTPServer where
  "timeout_server = hello_server
     \<lparr>response_middleware := [\<lambda>rq r. Inr (Awaitable (Inl CancelledError))]\<rparr>"

definition faulty_server :: AsyncHTTPServer where
  "faulty_server = hello_server
     \<lparr>response_middleware := [\<lambda>rq r. Inl (Exception ''stamp failed'')]\<rparr>"

definition interrupt_server :: AsyncHTTPServer where
  "interrupt_server = hello_server
     \<lparr>response_middleware := [\<lambda>rq r. Inl (BaseException ''KeyboardInterrupt'')]\<rparr>"

text \<open>A handler that returns \<open>None\<close>; a post-handler middleware that would replace anything.\<close>

definition silent :: handler where
  "silent = hello\<lparr>call := (\<lambda>rq args kwargs. Inr PyNone)\<rparr>"

definition silent_server :: AsyncHTTPServer where
  "silent_server = hello_server
     \<lparr>router := (\<lambda>rq. Inr (Some silent, [], [], Some ''/'')),
      response_middleware := [\<lambda>rq r. Inr maintenance]\<rparr>"

definition dispatched :: Request where
  "dispatched = \<lparr>payload = ''GET /'', app = Some ''app'', uri_template = Some ''/'',
                  endpoint = Some ''app.hello''\<rparr>"

definition opaque_500 :: pyval where
  "opaque_500 =
     Buffered \<lparr>body = ''An error occurred while handling an error'', status = 500,
               headers = Default, content_type = Default\<rparr>"

section \<open>Properties\<close>

subsection \<open>Frames and traces\<close>

lemma emit_simps [simp]:
  "trace (emit t f) = trace f @ t"
  "response (emit t f) = response f"
  "request (emit t f) = request f"
  "cancelled (emit t f) = cancelled f"
  "raised (emit t f) = raised f"
  by (simp_all add: emit_def)

lemma raise_simps [simp]:
  "trace (raise e f) = trace f"
  "response (raise e f) = response f"
  "request (raise e f) = request f"
  "cancelled (raise e f) = cancelled f"
  "raised (raise e f) = Some e"
  by (simp_all add: raise_def)

lemma enter_simps [simp]:
  "trace (enter rq) = []"
  "response (enter rq) = PyNone"
  "request (enter rq) = rq"
  "cancelled (enter rq) = False"
  "raised (enter rq) = None"
  by (simp_all add: enter_def)

lemmas example_defs = python38_def python37_def accepting_def refusing_def get_index_def
  ok_response_def hello_def
  hello_server_def exiting_def exiting_server_def maintenance_def gate_server_def
  quiet_server_def stamp_server_def calm_server_def deferred_def deferred_server_def
  unrouted_server_def unrouted_timeout_server_def failing_def broken_server_def
  verbose_server_def teapot_server_def
  interrupted_server_def timeout_server_def faulty_server_def interrupt_server_def
  silent_def silent_server_def dispatched_def opaque_500_def

lemmas pipeline_defs = handle_request_def output_router_def finally_clause_def
  except_clauses_def primary_recovery_def secondary_recovery_def try_body_def
  execute_handler_def normalize_result_def run_request_middleware_def
  run_response_middleware_def enter_def emit_def raise_def resolved_def endpoint_name_def
  build_endpoint_name_def Let_def

subsection \<open>The two loops\<close>

lemma request_loop_events:
  "request_middleware_loop i ms rq = (t, r) \<Longrightarrow> ev \<in> set t \<Longrightarrow>
   \<exists>j. ev = RequestMiddleware j rq"
  by (induction ms arbitrary: i t) (auto split: sum.splits if_splits prod.splits)

lemma response_loop_events:
  "response_middleware_loop i ms rq v = (t, r) \<Longrightarrow> ev \<in> set t \<Longrightarrow>
   \<exists>j. ev = ResponseMiddleware j rq v"
  by (induction ms arbitrary: i t) (auto split: sum.splits if_splits prod.splits)

lemma request_loop_result:
  "request_middleware_loop i ms rq = (t, Inr v) \<Longrightarrow> truthy v \<or> v = PyNone"
  by (induction ms arbitrary: i t) (auto split: sum.splits if_splits prod.splits)

lemma request_events_shift:
  "map (\<lambda>j. RequestMiddleware (i + j) rq) [0..<Suc n] =
     RequestMiddleware i rq # map (\<lambda>j. RequestMiddleware (Suc i + j) rq) [0..<n]"
  by (simp add: upt_rec [of 0] map_Suc_upt [symmetric] del: upt_Suc)

lemma response_events_shift:
  "map (\<lambda>j. ResponseMiddleware (i + j) rq r) [0..<Suc n] =
     ResponseMiddleware i rq r # map (\<lambda>j. ResponseMiddleware (Suc i + j) rq r) [0..<n]"
  by (simp add: upt_rec [of 0] map_Suc_upt [symmetric] del: upt_Suc)

lemma request_loop_first_truthy:
  "k < length ms \<Longrightarrow> resolved ((ms ! k) rq) = Inr v \<Longrightarrow> truthy v \<Longrightarrow>
   (\<forall>j<k. \<exists>w. resolved ((ms ! j) rq) = Inr w \<and> \<not> truthy w) \<Longrightarrow>
   request_middleware_loop i ms rq = (map (\<lambda>j. RequestMiddleware (i + j) rq) [0..<Suc k], Inr v)"
proof (induction ms arbitrary: i k)
  case Nil
  then show ?case by simp
next
  case (Cons m ms)
  show ?case
  proof (cases k)
    case 0
    with Cons.prems show ?thesis by simp
  next
    case (Suc k')
    from Cons.prems(4) Suc obtain w where w: "resolved (m rq) = Inr w" "\<not> truthy w"
      by fastforce
    have later: "\<forall>j<k'. \<exists>w. resolved ((ms ! j) rq) = Inr w \<and> \<not> truthy w"
      using Cons.prems(4) Suc by fastforce
    have "request_middleware_loop (Suc i) ms rq =
            (map (\<lambda>j. RequestMiddleware (Suc i + j) rq) [0..<Suc k'], Inr v)"
      using Cons.IH [of k' "Suc i"] Cons.prems Suc later by simp
    then show ?thesis
      using w Suc request_events_shift [of i rq "Suc k'"] by simp
  qed
qed

lemma request_loop_all_falsy:
  "(\<forall>j<length ms. \<exists>w. resolved ((ms ! j) rq) = Inr w \<and> \<not> truthy w) \<Longrightarrow>
   request_middleware_loop i ms rq =
     (map (\<lambda>j. RequestMiddleware (i + j) rq) [0..<length ms], Inr PyNone)"
proof (induction ms arbitrary: i)
  case Nil
  then show ?case by simp
next
  case (Cons m ms)
  from Cons.prems obtain w where w: "resolved (m rq) = Inr w" "\<not> truthy w"
    by fastforce
  have later: "\<forall>j<length ms. \<exists>w. resolved ((ms ! j) rq) = Inr w \<and> \<not> truthy w"
    using Cons.prems by fastforce
  show ?case
    using Cons.IH [OF later, of "Suc i"] w request_events_shift [of i rq "length ms"] by simp
qed

lemma response_loop_first_truthy:
  "k < length ms \<Longrightarrow> resolved ((ms ! k) rq r) = Inr v \<Longrightarrow> truthy v \<Longrightarrow>
   (\<forall>j<k. \<exists>w. resolved ((ms ! j) rq r) = Inr w \<and> \<not> truthy w) \<Longrightarrow>
   response_middleware_loop i ms rq r =
     (map (\<lambda>j. ResponseMiddleware (i + j) rq r) [0..<Suc k], Inr v)"
proof (induction ms arbitrary: i k)
  case Nil
  then show ?case by simp
next
  case (Cons m ms)
  show ?case
  proof (cases k)
    case 0
    with Cons.prems show ?thesis by simp
  next
    case (Suc k')
    from Cons.prems(4) Suc obtain w where w: "resolved (m rq r) = Inr w" "\<not> truthy w"
      by fastforce
    have later: "\<forall>j<k'. \<exists>w. resolved ((ms ! j) rq r) = Inr w \<and> \<not> truthy w"
      using Cons.prems(4) Suc by fastforce
    have "response_middleware_loop (Suc i) ms rq r =
            (map (\<lambda>j. ResponseMiddleware (Suc i + j) rq r) [0..<Suc k'], Inr v)"
      using Cons.IH [of k' "Suc i"] Cons.prems Suc later by simp
    then show ?thesis
      using w Suc response_events_shift [of i rq r "Suc k'"] by simp
  qed
qed

lemma response_loop_all_falsy:
  "(\<forall>j<length ms. \<exists>w. resolved ((ms ! j) rq r) = Inr w \<and> \<not> truthy w) \<Longrightarrow>
   response_middleware_loop i ms rq r =
     (map (\<lambda>j. ResponseMiddleware (i + j) rq r) [0..<length ms], Inr r)"
proof (induction ms arbitrary: i)
  case Nil
  then show ?case by simp
next
  case (Cons m ms)
  from Cons.prems obtain w where w: "resolved (m rq r) = Inr w" "\<not> truthy w"
    by fastforce
  have later: "\<forall>j<length ms. \<exists>w. resolved ((ms ! j) rq r) = Inr w \<and> \<not> truthy w"
    using Cons.prems by fastforce
  show ?case
    using Cons.IH [OF later, of "Suc i"] w response_events_shift [of i rq r "length ms"] by simp
qed

lemma run_request_middleware_events:
  "run_request_middleware self rq = (t, r) \<Longrightarrow> ev \<in> set t \<Longrightarrow> \<exists>j. ev = RequestMiddleware j rq"
  by (auto simp: run_request_middleware_def split: if_splits dest: request_loop_events)

lemma run_response_middleware_events:
  "run_response_middleware self rq v = (t, r) \<Longrightarrow> ev \<in> set t \<Longrightarrow>
   \<exists>j. ev = ResponseMiddleware j rq v"
  by (auto simp: run_response_middleware_def split: if_splits dest: response_loop_events)

lemma run_request_middleware_result:
  "run_request_middleware self rq = (t, Inr v) \<Longrightarrow> truthy v \<or> v = PyNone"
  by (auto simp: run_request_middleware_def split: if_splits dest: request_loop_result)

lemma request_middleware_filter:
  assumes "run_request_middleware self rq = (t, r)" and "\<And>j q. \<not> P (RequestMiddleware j q)"
  shows "filter P t = []"
proof -
  have "\<not> P ev" if "ev \<in> set t" for ev
    using run_request_middleware_events [OF assms(1) that] assms(2) by auto
  then show ?thesis by (simp add: filter_empty_conv)
qed

lemma response_middleware_filter:
  assumes "run_response_middleware self rq v = (t, r)"
    and "\<And>j q w. \<not> P (ResponseMiddleware j q w)"
  shows "filter P t = []"
proof -
  have "\<not> P ev" if "ev \<in> set t" for ev
    using run_response_middleware_events [OF assms(1) that] assms(2) by auto
  then show ?thesis by (simp add: filter_empty_conv)
qed

subsection \<open>What each part of \<open>handle_request\<close> adds to the trace\<close>

lemma normalize_result_filter:
  "\<not> P (LoggerInfo ''got response from function'') \<Longrightarrow>
   filter P (trace (normalize_result rt f)) = filter P (trace f)"
  by (simp add: normalize_result_def Let_def split: sum.splits)

lemma execute_handler_filter:
  "(\<And>q. \<not> P (RouterGet q)) \<Longrightarrow> (\<And>n q. \<not> P (HandlerCall n q)) \<Longrightarrow> (\<And>m. \<not> P (LoggerInfo m)) \<Longrightarrow>
   filter P (trace (execute_handler rt self f)) = filter P (trace f)"
  by (simp add: execute_handler_def Let_def normalize_result_filter
           split: sum.splits prod.splits option.splits)

lemma try_body_filter:
  "(\<And>j q. \<not> P (RequestMiddleware j q)) \<Longrightarrow>
   (\<And>q. \<not> P (RouterGet q)) \<Longrightarrow> (\<And>n q. \<not> P (HandlerCall n q)) \<Longrightarrow> (\<And>m. \<not> P (LoggerInfo m)) \<Longrightarrow>
   filter P (trace (try_body rt self f)) = filter P (trace f)"
  by (auto simp: try_body_def Let_def execute_handler_filter
           split: sum.splits prod.splits
           dest: request_middleware_filter [where P = P])

lemma try_body_callbacks:
  "filter is_callback (trace (try_body rt self f)) = filter is_callback (trace f)"
  by (simp add: try_body_filter)

lemma normalize_result_trace: "\<exists>t. trace (normalize_result rt f) = trace f @ t"
  by (simp add: normalize_result_def Let_def split: sum.splits)

lemma execute_handler_trace:
  "\<exists>t. trace (execute_handler rt self f) = trace f @ RouterGet (request f) # t"
proof -
  have "\<exists>t. trace (normalize_result rt g) = trace f @ RouterGet (request f) # t"
    if "\<exists>u. trace g = trace f @ RouterGet (request f) # u" for g
    using that normalize_result_trace [of rt g] by auto
  then show ?thesis
    by (simp add: execute_handler_def Let_def split: sum.splits prod.splits option.splits)
qed

lemma primary_recovery_trace: "\<exists>t. trace (primary_recovery rt self e f) = trace f @ t"
  by (simp add: primary_recovery_def secondary_recovery_def Let_def split: sum.splits)

lemma except_clauses_trace: "\<exists>t. trace (except_clauses rt self f) = trace f @ t"
  using primary_recovery_trace [of rt self _ "f\<lparr>raised := None\<rparr>"]
  by (simp add: except_clauses_def split: option.splits)

lemma finally_clause_trace: "\<exists>t. trace (finally_clause self f) = trace f @ t"
  by (simp add: finally_clause_def Let_def split: sum.splits prod.splits)

lemma output_router_trace: "\<exists>t. trace (output_router wcb scb f) = trace f @ t"
  by (simp add: output_router_def split: option.splits)

lemma handle_request_trace:
  "\<exists>t. trace (handle_request rt self rq wcb scb) = trace (try_body rt self (enter rq)) @ t"
proof -
  obtain t1 where "trace (except_clauses rt self (try_body rt self (enter rq))) =
      trace (try_body rt self (enter rq)) @ t1"
    using except_clauses_trace by blast
  moreover obtain t2 where
    "trace (finally_clause self (except_clauses rt self (try_body rt self (enter rq)))) =
      trace (except_clauses rt self (try_body rt self (enter rq))) @ t2"
    using finally_clause_trace by blast
  moreover obtain t3 where
    "trace (output_router wcb scb (finally_clause self (except_clauses rt self (try_body rt self (enter rq))))) =
      trace (finally_clause self (except_clauses rt self (try_body rt self (enter rq)))) @ t3"
    using output_router_trace by blast
  ultimately show ?thesis by (simp add: handle_request_def)
qed


lemma secondary_recovery_filter:
  "(\<And>q e. \<not> P (ErrorHandlerDefault q e)) \<Longrightarrow>
   filter P (trace (secondary_recovery rt self e f)) = filter P (trace f)"
  by (simp add: secondary_recovery_def)

lemma primary_recovery_filter:
  "(\<And>q e. \<not> P (ErrorHandlerDefault q e)) \<Longrightarrow> (\<And>q e. \<not> P (ErrorHandlerResponse q e)) \<Longrightarrow>
   (\<And>m. \<not> P (LoggerError m)) \<Longrightarrow>
   filter P (trace (primary_recovery rt self e f)) = filter P (trace f)"
  by (simp add: primary_recovery_def Let_def secondary_recovery_filter split: sum.splits)

lemma except_clauses_filter:
  "(\<And>q e. \<not> P (ErrorHandlerDefault q e)) \<Longrightarrow> (\<And>q e. \<not> P (ErrorHandlerResponse q e)) \<Longrightarrow>
   (\<And>m. \<not> P (LoggerError m)) \<Longrightarrow>
   filter P (trace (except_clauses rt self f)) = filter P (trace f)"
  by (simp add: except_clauses_def primary_recovery_filter split: option.splits)

lemma finally_clause_filter:
  "(\<And>j q w. \<not> P (ResponseMiddleware j q w)) \<Longrightarrow> (\<And>m. \<not> P (LoggerError m)) \<Longrightarrow>
   filter P (trace (finally_clause self f)) = filter P (trace f)"
  by (auto simp: finally_clause_def Let_def split: sum.splits prod.splits
           dest: response_middleware_filter [where P = P])

lemma output_router_filter:
  "(\<And>v. \<not> P (WriteCallback v)) \<Longrightarrow> (\<And>v. \<not> P (StreamCallback v)) \<Longrightarrow>
   filter P (trace (output_router wcb scb f)) = filter P (trace f)"
  by (simp add: output_router_def split: option.splits)

lemma handle_request_filter:
  "(\<And>q e. \<not> P (ErrorHandlerDefault q e)) \<Longrightarrow> (\<And>q e. \<not> P (ErrorHandlerResponse q e)) \<Longrightarrow>
   (\<And>m. \<not> P (LoggerError m)) \<Longrightarrow> (\<And>j q w. \<not> P (ResponseMiddleware j q w)) \<Longrightarrow>
   (\<And>v. \<not> P (WriteCallback v)) \<Longrightarrow> (\<And>v. \<not> P (StreamCallback v)) \<Longrightarrow>
   filter P (trace (handle_request rt self rq wcb scb)) = filter P (trace (try_body rt self (enter rq)))"
  by (simp add: handle_request_def output_router_filter finally_clause_filter
        except_clauses_filter)

lemma output_router_raised:
  "raised (output_router wcb scb f) =
     (case raised f of
        Some e \<Rightarrow> Some e
      | None \<Rightarrow> if isinstance_StreamingHTTPResponse (response f)
                then scb (response f) else wcb (response f))"
  by (simp add: output_router_def split: option.splits)

lemma output_router_cancelled [simp]: "cancelled (output_router wcb scb f) = cancelled f"
  by (simp add: output_router_def split: option.splits)

lemma output_router_response [simp]: "response (output_router wcb scb f) = response f"
  by (simp add: output_router_def split: option.splits)

lemma output_router_callbacks:
  "filter is_callback (trace (output_router wcb scb f)) =
     filter is_callback (trace f) @
       (case raised f of
          Some e \<Rightarrow> []
        | None \<Rightarrow> if isinstance_StreamingHTTPResponse (response f)
                  then [StreamCallback (response f)] else [WriteCallback (response f)])"
  by (simp add: output_router_def split: option.splits)

lemma except_clauses_idle: "raised f = None \<Longrightarrow> except_clauses rt self f = f"
  by (simp add: except_clauses_def)

subsection \<open>What reaches the caller\<close>

lemma not_Exception_cases:
  "\<not> isinstance_Exception rt e \<Longrightarrow> e = CancelledError \<or> (\<exists>s. e = BaseException s)"
  by (cases e) simp_all

lemma secondary_recovery_raised:
  "raised f = None \<Longrightarrow>
   raised (secondary_recovery rt self e f) = (if isinstance_Exception rt e then None else Some e)"
  by (simp add: secondary_recovery_def)

lemma primary_recovery_raised:
  "raised f = None \<Longrightarrow> raised (primary_recovery rt self e f) = Some x \<Longrightarrow>
   \<not> isinstance_Exception rt x"
  by (auto simp: primary_recovery_def Let_def secondary_recovery_raised
           split: sum.splits if_splits)

lemma except_clauses_raised:
  "raised (except_clauses rt self f) = Some x \<Longrightarrow> \<not> isinstance_Exception rt x"
  by (auto simp: except_clauses_def split: option.splits if_splits
           dest: primary_recovery_raised [rotated])

lemma finally_clause_raised:
  "raised (finally_clause self f) = Some x \<Longrightarrow> x = CancelledError \<or> raised f = Some x"
  by (auto simp: finally_clause_def Let_def split: sum.splits prod.splits if_splits)

lemma finally_clause_in_flight:
  "raised f = Some x \<Longrightarrow>
   raised (finally_clause self f) = Some x \<or> raised (finally_clause self f) = Some CancelledError"
  by (auto simp: finally_clause_def Let_def split: sum.splits prod.splits)

lemma finally_clause_flagged:
  "cancelled (finally_clause self f) \<Longrightarrow> raised (finally_clause self f) = Some CancelledError"
  by (auto simp: finally_clause_def Let_def split: sum.splits prod.splits if_splits)

lemma before_output_raised:
  "raised (finally_clause self (except_clauses rt self f)) = Some x \<Longrightarrow>
   x = CancelledError \<or> (\<exists>s. x = BaseException s)"
  by (auto dest!: finally_clause_raised except_clauses_raised not_Exception_cases)

lemma before_output_no_callback:
  "filter is_callback
     (trace (finally_clause self (except_clauses rt self (try_body rt self (enter rq))))) = []"
  by (simp add: finally_clause_filter except_clauses_filter try_body_callbacks)

lemma handle_request_unfinished:
  assumes "g = except_clauses rt self (try_body rt self (enter rq))"
    and "raised (finally_clause self g) = Some x"
  shows "raised (handle_request rt self rq wcb scb) = Some x"
    and "filter is_callback (trace (handle_request rt self rq wcb scb)) = []"
  using assms before_output_no_callback [of self rt rq]
  by (simp_all add: handle_request_def output_router_def)

lemma handle_request_delivered:
  assumes "g = except_clauses rt self (try_body rt self (enter rq))"
    and "raised (finally_clause self g) = None"
  shows "filter is_callback (trace (handle_request rt self rq wcb scb)) =
           [if isinstance_StreamingHTTPResponse (response (handle_request rt self rq wcb scb))
            then StreamCallback (response (handle_request rt self rq wcb scb))
            else WriteCallback (response (handle_request rt self rq wcb scb))]"
    and "raised (handle_request rt self rq wcb scb) =
           (if isinstance_StreamingHTTPResponse (response (handle_request rt self rq wcb scb))
            then scb (response (handle_request rt self rq wcb scb))
            else wcb (response (handle_request rt self rq wcb scb)))"
  using assms before_output_no_callback [of self rt rq]
  by (simp_all add: handle_request_def output_router_def)

subsection \<open>The flag \<open>cancelled\<close> and the \<open>finally\<close> clause\<close>

lemma secondary_recovery_simps [simp]:
  "request (secondary_recovery rt self e f) = request f"
  "cancelled (secondary_recovery rt self e f) = cancelled f"
  by (simp_all add: secondary_recovery_def)

lemma ok_response_facts:
  "ok_response \<noteq> PyNone" "\<not> isinstance_StreamingHTTPResponse ok_response"
  by (simp_all add: ok_response_def)

lemma normalize_result_cancelled [simp]:
  "cancelled (normalize_result rt f) = cancelled f"
  by (simp add: normalize_result_def Let_def split: sum.splits)

lemma try_body_cancelled [simp]: "cancelled (try_body rt self f) = cancelled f"
  by (simp add: try_body_def execute_handler_def Let_def
        split: sum.splits prod.splits option.splits)

lemma primary_recovery_cancelled [simp]:
  "cancelled (primary_recovery rt self e f) = cancelled f"
  by (simp add: primary_recovery_def Let_def split: sum.splits)

lemma except_clauses_cancelled:
  "cancelled (except_clauses rt self f) \<Longrightarrow> \<not> cancelled f \<Longrightarrow>
   response (except_clauses rt self f) = PyNone"
  by (auto simp: except_clauses_def split: option.splits if_splits)

lemma present_not_cancelled:
  "response (except_clauses rt self (try_body rt self (enter rq))) \<noteq> PyNone \<Longrightarrow>
   \<not> cancelled (except_clauses rt self (try_body rt self (enter rq)))"
  using except_clauses_cancelled [of rt self "try_body rt self (enter rq)"] by auto

lemma finally_clause_cancellation:
  "\<not> cancelled f \<Longrightarrow> response f \<noteq> PyNone \<Longrightarrow>
   run_response_middleware self (request f) (response f) = (t, Inl CancelledError) \<Longrightarrow>
   finally_clause self f =
     f\<lparr>response := PyNone, cancelled := True, raised := Some CancelledError,
       trace := trace f @ t\<rparr>"
  by (simp add: finally_clause_def Let_def emit_def raise_def)

lemma finally_clause_swallows:
  "\<not> cancelled f \<Longrightarrow> response f \<noteq> PyNone \<Longrightarrow>
   run_response_middleware self (request f) (response f) = (t, Inl e) \<Longrightarrow>
   e \<noteq> CancelledError \<Longrightarrow>
   finally_clause self f =
     f\<lparr>trace := trace f @ t @
        [LoggerError ''Exception occurred in one of response middleware handlers'']\<rparr>"
  by (simp add: finally_clause_def Let_def emit_def)

lemma finally_clause_absent:
  "\<not> cancelled f \<Longrightarrow> response f = PyNone \<Longrightarrow> finally_clause self f = f"
  by (simp add: finally_clause_def)

lemma before_finally_no_callback:
  "filter is_callback (trace (except_clauses rt self (try_body rt self (enter rq)))) = []"
  by (simp add: except_clauses_filter try_body_filter)

subsection \<open>The outcomes of \<open>handle_request\<close>\<close>

text \<open>
  C1, as the code has it. \<open>handle_request\<close> ends in exactly one of three ways. Either
  exactly one of the two callbacks has been called, exactly once, with the final value of
  \<open>response\<close> (the stream callback for a \<open>StreamingHTTPResponse\<close>, the write callback for
  anything else), and \<open>handle_request\<close> returns when that call returns and raises what
  that call raises otherwise; or \<open>CancelledError\<close> reaches the caller and neither callback has
  been called; or an exception outside \<open>Exception\<close> other than \<open>CancelledError\<close> reaches
  the caller and neither callback has been called. No run calls both callbacks, and a run
  that set \<open>cancelled\<close>, and so raises \<open>CancelledError\<close> at the end of its \<open>finally\<close>
  clause, calls none.
\<close>

theorem handle_request_outcomes:
  "(filter is_callback (trace (handle_request rt self rq wcb scb)) = [] \<and>
      raised (handle_request rt self rq wcb scb) = Some CancelledError
    \<or> filter is_callback (trace (handle_request rt self rq wcb scb)) = [] \<and>
      (\<exists>s. raised (handle_request rt self rq wcb scb) = Some (BaseException s))
    \<or> filter is_callback (trace (handle_request rt self rq wcb scb)) =
        [if isinstance_StreamingHTTPResponse (response (handle_request rt self rq wcb scb))
         then StreamCallback (response (handle_request rt self rq wcb scb))
         else WriteCallback (response (handle_request rt self rq wcb scb))] \<and>
      raised (handle_request rt self rq wcb scb) =
        (if isinstance_StreamingHTTPResponse (response (handle_request rt self rq wcb scb))
         then scb (response (handle_request rt self rq wcb scb))
         else wcb (response (handle_request rt self rq wcb scb))))
   \<and> (cancelled (handle_request rt self rq wcb scb) \<longrightarrow>
        filter is_callback (trace (handle_request rt self rq wcb scb)) = [] \<and>
        raised (handle_request rt self rq wcb scb) = Some CancelledError)"
proof -
  let ?g = "except_clauses rt self (try_body rt self (enter rq))"
  have flag: "cancelled (handle_request rt self rq wcb scb) = cancelled (finally_clause self ?g)"
    by (simp add: handle_request_def)
  show ?thesis
  proof (cases "raised (finally_clause self ?g)")
    case None
    have "\<not> cancelled (finally_clause self ?g)"
      using finally_clause_flagged [of self ?g] None by auto
    then show ?thesis
      using handle_request_delivered [OF refl None, where wcb = wcb and scb = scb]
      by (simp add: flag)
  next
    case (Some x)
    have "x = CancelledError \<or> (\<exists>s. x = BaseException s)"
      using before_output_raised [OF Some] .
    moreover have "cancelled (finally_clause self ?g) \<longrightarrow> x = CancelledError"
      using finally_clause_flagged [of self ?g] Some by auto
    ultimately show ?thesis
      using handle_request_unfinished [OF refl Some, where wcb = wcb and scb = scb] by (auto simp: flag)
  qed
qed

theorem handle_request_outcomes_witness:
  "cancelled (handle_request python38 timeout_server get_index accepting accepting)
   \<and> filter is_callback (trace (handle_request python38 timeout_server get_index accepting accepting))
       = []
   \<and> raised (handle_request python38 timeout_server get_index accepting accepting) =
       Some CancelledError
   \<and> filter is_callback (trace (handle_request python38 hello_server get_index refusing refusing))
       = [WriteCallback ok_response]
   \<and> raised (handle_request python38 hello_server get_index refusing refusing) =
       Some (Exception ''connection lost'')"
proof -
  have "cancelled (handle_request python38 timeout_server get_index accepting accepting)"
    by (simp add: pipeline_defs example_defs)
  then have first:
    "cancelled (handle_request python38 timeout_server get_index accepting accepting)
     \<and> filter is_callback
         (trace (handle_request python38 timeout_server get_index accepting accepting)) = []
     \<and> raised (handle_request python38 timeout_server get_index accepting accepting) =
         Some CancelledError"
    using handle_request_outcomes
      [where rt = python38 and self = timeout_server and rq = get_index and wcb = accepting
        and scb = accepting]
    by simp
  have response: "response (handle_request python38 hello_server get_index refusing refusing) =
      ok_response"
    and called: "filter is_callback
      (trace (handle_request python38 hello_server get_index refusing refusing)) \<noteq> []"
    by (simp_all add: pipeline_defs example_defs)
  have second:
    "filter is_callback (trace (handle_request python38 hello_server get_index refusing refusing))
       = [WriteCallback ok_response]
     \<and> raised (handle_request python38 hello_server get_index refusing refusing) =
       Some (Exception ''connection lost'')"
    using handle_request_outcomes
      [where rt = python38 and self = hello_server and rq = get_index and wcb = refusing
        and scb = refusing] called
    by (auto simp: response refusing_def ok_response_facts)
  from first second show ?thesis by simp
qed

text \<open>
  C1 as the spec states it has only the first two outcomes. A handler that raises
  \<open>SystemExit\<close> gives the third: the exception passes both \<open>except\<close> clauses, \<open>response\<close> is
  still \<open>None\<close> in the \<open>finally\<close> clause, and the caller gets \<open>SystemExit\<close> with no callback
  called.
\<close>

theorem handler_signal_escapes:
  "raised (handle_request python38 exiting_server get_index accepting accepting) =
     Some (BaseException ''SystemExit'')
   \<and> filter is_callback (trace (handle_request python38 exiting_server get_index accepting accepting))
       = []"
  by (simp add: pipeline_defs example_defs)

subsection \<open>Pre-handler middleware\<close>

lemma request_events_filter:
  "filter is_request_middleware (map (\<lambda>j. RequestMiddleware j rq) js) =
     map (\<lambda>j. RequestMiddleware j rq) js"
  by (induction js) simp_all

lemma try_body_answered:
  assumes "run_request_middleware self (rq\<lparr>app := Some (name self)\<rparr>) = (t, Inr v)" and "truthy v"
  shows "try_body rt self (enter rq) =
           (enter (rq\<lparr>app := Some (name self)\<rparr>))\<lparr>response := v, trace := t\<rparr>"
  using assms by (simp add: try_body_def enter_def emit_def)

lemma try_body_unanswered:
  assumes "run_request_middleware self (rq\<lparr>app := Some (name self)\<rparr>) = (t, Inr v)"
    and "\<not> truthy v"
  shows "try_body rt self (enter rq) =
           execute_handler rt self
             ((enter (rq\<lparr>app := Some (name self)\<rparr>))\<lparr>response := v, trace := t\<rparr>)"
  using assms by (simp add: try_body_def enter_def emit_def)

text \<open>
  C2. The pre-handler middleware run in the order of the list. When the \<open>k\<close>-th is the
  first whose result, awaited if it is awaitable, is truthy, the runner returns that result
  after calling the middleware \<open>0\<close> to \<open>k\<close> and no other; it is the value of \<open>response\<close>
  when the \<open>try\<close> body ends, and in the whole run no later pre-handler middleware is
  called and neither the router nor the handler is. When the list is empty or every result
  is falsy, the runner has called them all, in order, and returns \<open>None\<close>, and the next
  call of the run is the router's.
\<close>

theorem request_middleware_first_truthy_wins:
  "(rq' = rq\<lparr>app := Some (name self)\<rparr> \<and> k < length (request_middleware self) \<and>
    resolved ((request_middleware self ! k) rq') = Inr v \<and> truthy v \<and>
    (\<forall>j<k. \<exists>w. resolved ((request_middleware self ! j) rq') = Inr w \<and> \<not> truthy w)
    \<longrightarrow> run_request_middleware self rq' = (map (\<lambda>j. RequestMiddleware j rq') [0..<Suc k], Inr v)
      \<and> response (try_body rt self (enter rq)) = v
      \<and> raised (try_body rt self (enter rq)) = None
      \<and> filter is_request_middleware (trace (handle_request rt self rq wcb scb)) =
          map (\<lambda>j. RequestMiddleware j rq') [0..<Suc k]
      \<and> filter is_dispatch (trace (handle_request rt self rq wcb scb)) = [])
   \<and> (rq' = rq\<lparr>app := Some (name self)\<rparr> \<and>
      (\<forall>j<length (request_middleware self).
          \<exists>w. resolved ((request_middleware self ! j) rq') = Inr w \<and> \<not> truthy w)
    \<longrightarrow> run_request_middleware self rq' =
          (map (\<lambda>j. RequestMiddleware j rq') [0..<length (request_middleware self)], Inr PyNone)
      \<and> (\<exists>t. trace (handle_request rt self rq wcb scb) =
            map (\<lambda>j. RequestMiddleware j rq') [0..<length (request_middleware self)]
              @ RouterGet rq' # t))"
proof (intro conjI impI; elim conjE)
  assume rq': "rq' = rq\<lparr>app := Some (name self)\<rparr>" and k: "k < length (request_middleware self)"
    and v: "resolved ((request_middleware self ! k) rq') = Inr v" "truthy v"
    and before: "\<forall>j<k. \<exists>w. resolved ((request_middleware self ! j) rq') = Inr w \<and> \<not> truthy w"
  from k have nonempty: "request_middleware self \<noteq> []" by auto
  show run: "run_request_middleware self rq' = (map (\<lambda>j. RequestMiddleware j rq') [0..<Suc k], Inr v)"
    using request_loop_first_truthy [OF k v before, of 0] nonempty
    by (simp add: run_request_middleware_def)
  have body: "try_body rt self (enter rq) =
      (enter rq')\<lparr>response := v, trace := map (\<lambda>j. RequestMiddleware j rq') [0..<Suc k]\<rparr>"
    using try_body_answered [OF run [unfolded rq'] v(2)] rq' by simp
  show "response (try_body rt self (enter rq)) = v"
    by (simp add: body)
  show "raised (try_body rt self (enter rq)) = None"
    by (simp add: body)
  show "filter is_request_middleware (trace (handle_request rt self rq wcb scb)) =
          map (\<lambda>j. RequestMiddleware j rq') [0..<Suc k]"
    by (simp only: handle_request_filter [where P = is_request_middleware, simplified] body)
       (simp add: request_events_filter del: upt_Suc)
  show "filter is_dispatch (trace (handle_request rt self rq wcb scb)) = []"
    by (simp only: handle_request_filter [where P = is_dispatch, simplified] body)
       (simp add: filter_empty_conv)
next
  assume rq': "rq' = rq\<lparr>app := Some (name self)\<rparr>"
    and all: "\<forall>j<length (request_middleware self).
          \<exists>w. resolved ((request_middleware self ! j) rq') = Inr w \<and> \<not> truthy w"
  show run: "run_request_middleware self rq' =
      (map (\<lambda>j. RequestMiddleware j rq') [0..<length (request_middleware self)], Inr PyNone)"
    using request_loop_all_falsy [OF all, of 0] by (simp add: run_request_middleware_def)
  have "try_body rt self (enter rq) = execute_handler rt self
      ((enter rq')\<lparr>response := PyNone,
         trace := map (\<lambda>j. RequestMiddleware j rq') [0..<length (request_middleware self)]\<rparr>)"
    using try_body_unanswered [OF run [unfolded rq'], of rt] rq' by simp
  then obtain t1 where "trace (try_body rt self (enter rq)) =
      map (\<lambda>j. RequestMiddleware j rq') [0..<length (request_middleware self)] @ RouterGet rq' # t1"
    using execute_handler_trace [of rt self "(enter rq')\<lparr>response := PyNone,
         trace := map (\<lambda>j. RequestMiddleware j rq') [0..<length (request_middleware self)]\<rparr>"]
    by auto
  then show "\<exists>t. trace (handle_request rt self rq wcb scb) =
            map (\<lambda>j. RequestMiddleware j rq') [0..<length (request_middleware self)]
              @ RouterGet rq' # t"
    using handle_request_trace [of rt self rq wcb scb] by auto
qed

theorem request_middleware_first_truthy_wins_witness:
  "run_request_middleware gate_server (get_index\<lparr>app := Some ''app''\<rparr>) =
     ([RequestMiddleware 0 (get_index\<lparr>app := Some ''app''\<rparr>),
       RequestMiddleware 1 (get_index\<lparr>app := Some ''app''\<rparr>)], Inr maintenance)
   \<and> response (try_body python38 gate_server (enter get_index)) = maintenance
   \<and> filter is_dispatch (trace (handle_request python38 gate_server get_index accepting accepting)) = []
   \<and> run_request_middleware quiet_server (get_index\<lparr>app := Some ''app''\<rparr>) =
     ([RequestMiddleware 0 (get_index\<lparr>app := Some ''app''\<rparr>),
       RequestMiddleware 1 (get_index\<lparr>app := Some ''app''\<rparr>)], Inr PyNone)"
proof -
  have gate: "name gate_server = ''app''"
    "request_middleware gate_server =
      [\<lambda>rq. Inr PyNone, \<lambda>rq. Inr (Awaitable (Inr maintenance)),
       \<lambda>rq. Inl (Exception ''third middleware'')]"
    by (simp_all add: gate_server_def hello_server_def)
  have quiet: "name quiet_server = ''app''"
    "request_middleware quiet_server =
      [\<lambda>rq. Inr PyNone, \<lambda>rq. Inr (Awaitable (Inr (Falsy ''0'')))]"
    by (simp_all add: quiet_server_def hello_server_def)
  have upt: "[0..<Suc (Suc 0)] = [0, Suc 0]"
    by (simp add: upt_rec)
  have first: "run_request_middleware gate_server (get_index\<lparr>app := Some ''app''\<rparr>) =
     ([RequestMiddleware 0 (get_index\<lparr>app := Some ''app''\<rparr>),
       RequestMiddleware 1 (get_index\<lparr>app := Some ''app''\<rparr>)], Inr maintenance)
   \<and> response (try_body python38 gate_server (enter get_index)) = maintenance
   \<and> filter is_dispatch (trace (handle_request python38 gate_server get_index accepting accepting)) = []"
    using request_middleware_first_truthy_wins
      [where rq' = "get_index\<lparr>app := Some ''app''\<rparr>" and rq = get_index
        and self = gate_server and k = 1 and v = maintenance and rt = python38
        and wcb = accepting and scb = accepting]
    by (simp add: gate resolved_def maintenance_def less_Suc_eq upt)
  have second: "run_request_middleware quiet_server (get_index\<lparr>app := Some ''app''\<rparr>) =
     ([RequestMiddleware 0 (get_index\<lparr>app := Some ''app''\<rparr>),
       RequestMiddleware 1 (get_index\<lparr>app := Some ''app''\<rparr>)], Inr PyNone)"
    using request_middleware_first_truthy_wins
      [where rq' = "get_index\<lparr>app := Some ''app''\<rparr>" and rq = get_index
        and self = quiet_server and rt = python38
        and wcb = accepting and scb = accepting]
    by (simp add: quiet resolved_def less_Suc_eq upt)
  from first second show ?thesis by simp
qed


subsection \<open>Post-handler middleware\<close>

lemma finally_clause_skip: "response f = PyNone \<Longrightarrow> trace (finally_clause self f) = trace f"
  by (simp add: finally_clause_def raise_def)

lemma finally_clause_events:
  "ev \<in> set (trace (finally_clause self f)) \<Longrightarrow>
   ev \<in> set (trace f) \<or> (\<exists>m. ev = LoggerError m) \<or>
   (response f \<noteq> PyNone \<and> (\<exists>j. ev = ResponseMiddleware j (request f) (response f)))"
  by (auto simp: finally_clause_def Let_def split: sum.splits prod.splits if_splits
           dest: run_response_middleware_events)

lemma output_router_events:
  "ev \<in> set (trace (output_router wcb scb f)) \<Longrightarrow> ev \<in> set (trace f) \<or> is_callback ev"
  by (auto simp: output_router_def split: option.splits if_splits)

lemma before_finally_no_response_middleware:
  "filter is_response_middleware (trace (except_clauses rt self (try_body rt self (enter rq)))) = []"
  by (simp add: except_clauses_filter try_body_filter)

lemma finally_clause_replaced:
  "response f \<noteq> PyNone \<Longrightarrow> run_response_middleware self (request f) (response f) = (t, Inr v) \<Longrightarrow>
   response (finally_clause self f) = v"
  by (simp add: finally_clause_def Let_def)

text \<open>
  C3. The post-handler middleware run in the order of the list, each with the request and
  the response the runner was given. When the \<open>k\<close>-th is the first whose result, awaited
  if it is awaitable, is truthy, the runner returns that result after calling the
  middleware \<open>0\<close> to \<open>k\<close> and no other; when every result is falsy it has called them all
  and returns the response it was given. In \<open>handle_request\<close> the value the runner returns
  becomes \<open>response\<close>; the runner is not called when \<open>response\<close> is \<open>None\<close> after the
  \<open>except\<close> clauses, and no post-handler middleware is ever called with \<open>None\<close>.
\<close>

theorem response_middleware_first_replacement_wins:
  "(k < length (response_middleware self) \<and>
    resolved ((response_middleware self ! k) rq r) = Inr v \<and> truthy v \<and>
    (\<forall>j<k. \<exists>w. resolved ((response_middleware self ! j) rq r) = Inr w \<and> \<not> truthy w)
    \<longrightarrow> run_response_middleware self rq r =
          (map (\<lambda>j. ResponseMiddleware j rq r) [0..<Suc k], Inr v))
   \<and> ((\<forall>j<length (response_middleware self).
          \<exists>w. resolved ((response_middleware self ! j) rq r) = Inr w \<and> \<not> truthy w)
    \<longrightarrow> run_response_middleware self rq r =
          (map (\<lambda>j. ResponseMiddleware j rq r) [0..<length (response_middleware self)], Inr r))
   \<and> (g = except_clauses rt self (try_body rt self (enter rq0)) \<and> response g \<noteq> PyNone \<and>
      run_response_middleware self (request g) (response g) = (t, Inr v')
    \<longrightarrow> response (handle_request rt self rq0 wcb scb) = v')
   \<and> (response (except_clauses rt self (try_body rt self (enter rq0))) = PyNone
    \<longrightarrow> filter is_response_middleware (trace (handle_request rt self rq0 wcb scb)) = [])
   \<and> (ResponseMiddleware i q w \<in> set (trace (handle_request rt self rq0 wcb scb)) \<longrightarrow> w \<noteq> PyNone)"
proof (intro conjI impI; (elim conjE)?)
  assume k: "k < length (response_middleware self)"
    and v: "resolved ((response_middleware self ! k) rq r) = Inr v" "truthy v"
    and before: "\<forall>j<k. \<exists>w. resolved ((response_middleware self ! j) rq r) = Inr w \<and> \<not> truthy w"
  from k have "response_middleware self \<noteq> []" by auto
  then show "run_response_middleware self rq r =
      (map (\<lambda>j. ResponseMiddleware j rq r) [0..<Suc k], Inr v)"
    using response_loop_first_truthy [OF k v before, of 0]
    by (simp add: run_response_middleware_def)
next
  assume "\<forall>j<length (response_middleware self).
          \<exists>w. resolved ((response_middleware self ! j) rq r) = Inr w \<and> \<not> truthy w"
  then show "run_response_middleware self rq r =
      (map (\<lambda>j. ResponseMiddleware j rq r) [0..<length (response_middleware self)], Inr r)"
    using response_loop_all_falsy [of "response_middleware self" rq r 0]
    by (simp add: run_response_middleware_def)
next
  assume "g = except_clauses rt self (try_body rt self (enter rq0))" "response g \<noteq> PyNone"
    "run_response_middleware self (request g) (response g) = (t, Inr v')"
  then show "response (handle_request rt self rq0 wcb scb) = v'"
    using finally_clause_replaced [of g self t v'] by (simp add: handle_request_def)
next
  assume "response (except_clauses rt self (try_body rt self (enter rq0))) = PyNone"
  then show "filter is_response_middleware (trace (handle_request rt self rq0 wcb scb)) = []"
    by (simp add: handle_request_def output_router_filter finally_clause_skip
          before_finally_no_response_middleware)
next
  assume ev: "ResponseMiddleware i q w \<in> set (trace (handle_request rt self rq0 wcb scb))"
  let ?g = "except_clauses rt self (try_body rt self (enter rq0))"
  from ev have "ResponseMiddleware i q w \<in> set (trace (finally_clause self ?g))"
    using output_router_events [of "ResponseMiddleware i q w" wcb scb "finally_clause self ?g"]
    by (simp add: handle_request_def)
  then have "ResponseMiddleware i q w \<in> set (trace ?g) \<or> (response ?g \<noteq> PyNone \<and> w = response ?g)"
    using finally_clause_events [of "ResponseMiddleware i q w" self ?g] by auto
  moreover have "ResponseMiddleware i q w \<notin> set (trace ?g)"
    using before_finally_no_response_middleware [of rt self rq0]
    by (auto simp: filter_empty_conv)
  ultimately show "w \<noteq> PyNone" by auto
qed

theorem response_middleware_first_replacement_wins_witness:
  "run_response_middleware stamp_server get_index ok_response =
     ([ResponseMiddleware 0 get_index ok_response, ResponseMiddleware 1 get_index ok_response],
      Inr maintenance)
   \<and> run_response_middleware calm_server get_index ok_response =
     ([ResponseMiddleware 0 get_index ok_response, ResponseMiddleware 1 get_index ok_response],
      Inr ok_response)
   \<and> response (handle_request python38 stamp_server get_index accepting accepting) = maintenance
   \<and> filter is_response_middleware (trace (handle_request python38 exiting_server get_index accepting accepting)) = []"
proof -
  have stamp: "response_middleware stamp_server =
      [\<lambda>rq r. Inr PyNone, \<lambda>rq r. Inr (Awaitable (Inr maintenance)),
       \<lambda>rq r. Inl (Exception ''third middleware'')]"
    by (simp add: stamp_server_def hello_server_def)
  have calm: "response_middleware calm_server = [\<lambda>rq r. Inr PyNone, \<lambda>rq r. Inr (Falsy ''0'')]"
    by (simp add: calm_server_def hello_server_def)
  have upt: "[0..<Suc (Suc 0)] = [0, Suc 0]"
    by (simp add: upt_rec)
  have first: "run_response_middleware stamp_server get_index ok_response =
     ([ResponseMiddleware 0 get_index ok_response, ResponseMiddleware 1 get_index ok_response],
      Inr maintenance)"
    using response_middleware_first_replacement_wins
      [where self = stamp_server and k = 1 and rq = get_index and r = ok_response
        and v = maintenance]
    by (simp add: stamp resolved_def maintenance_def less_Suc_eq upt)
  have second: "run_response_middleware calm_server get_index ok_response =
     ([ResponseMiddleware 0 get_index ok_response, ResponseMiddleware 1 get_index ok_response],
      Inr ok_response)"
    using response_middleware_first_replacement_wins
      [where self = calm_server and rq = get_index and r = ok_response]
    by (simp add: calm resolved_def less_Suc_eq upt)
  have third: "response (handle_request python38 stamp_server get_index accepting accepting) = maintenance"
    using response_middleware_first_replacement_wins
      [where self = stamp_server and rt = python38 and rq0 = get_index and v' = maintenance and wcb = accepting
        and scb = accepting
        and g = "except_clauses python38 stamp_server (try_body python38 stamp_server (enter get_index))"
        and t = "[ResponseMiddleware 0 (get_index\<lparr>app := Some ''app'', uri_template := Some ''/'',
                      endpoint := Some ''app.hello''\<rparr>) ok_response,
                  ResponseMiddleware 1 (get_index\<lparr>app := Some ''app'', uri_template := Some ''/'',
                      endpoint := Some ''app.hello''\<rparr>) ok_response]"]
    by (simp add: pipeline_defs example_defs)
  have fourth:
    "filter is_response_middleware (trace (handle_request python38 exiting_server get_index accepting accepting)) = []"
    using response_middleware_first_replacement_wins
      [where self = exiting_server and rt = python38 and rq0 = get_index and wcb = accepting
        and scb = accepting]
    by (simp add: pipeline_defs example_defs)
  from first second third fourth show ?thesis by simp
qed


subsection \<open>The handler's result\<close>

text \<open>
  C4. When no pre-handler middleware answered and the router found a handler: a result
  of the handler that is not awaitable is the value of \<open>response\<close> as it is, after the
  \<open>try\<close> body and after the \<open>except\<close> clauses; an awaitable result that resolves to an
  object whose \<open>body()\<close>, \<open>context().GetResponseHeaders()\<close> and \<open>status()\<close> return is
  replaced by an \<open>HTTPResponse\<close> built from these three, with the content type the
  \<open>Content-Type\<close> entry of the headers (\<open>None\<close> when there is none).
\<close>

theorem handler_result_normalized:
  "(rq' = rq\<lparr>app := Some (name self)\<rparr> \<and>
    run_request_middleware self rq' = (t, Inr u) \<and> \<not> truthy u \<and>
    router self rq' = Inr (Some h, args, kwargs, uri) \<and>
    rq'' = rq'\<lparr>uri_template := uri, endpoint := Some (endpoint_name self h)\<rparr> \<and>
    call h rq'' args kwargs = Inr V \<and> \<not> isawaitable V
    \<longrightarrow> response (try_body rt self (enter rq)) = V
      \<and> raised (try_body rt self (enter rq)) = None
      \<and> response (except_clauses rt self (try_body rt self (enter rq))) = V)
   \<and> (rq' = rq\<lparr>app := Some (name self)\<rparr> \<and>
    run_request_middleware self rq' = (t, Inr u) \<and> \<not> truthy u \<and>
    router self rq' = Inr (Some h, args, kwargs, uri) \<and>
    rq'' = rq'\<lparr>uri_template := uri, endpoint := Some (endpoint_name self h)\<rparr> \<and>
    call h rq'' args kwargs = Inr (Awaitable (Inr res)) \<and>
    body_method rt res = Inr b \<and> context_method rt res = Inr ctx \<and>
    GetResponseHeaders_method rt ctx = Inr hs \<and> status_method rt res = Inr s
    \<longrightarrow> response (try_body rt self (enter rq)) =
          Buffered \<lparr>body = b, status = s, headers = Given hs,
                    content_type = Given (map_of hs ''Content-Type'')\<rparr>
      \<and> raised (try_body rt self (enter rq)) = None
      \<and> response (except_clauses rt self (try_body rt self (enter rq))) =
          Buffered \<lparr>body = b, status = s, headers = Given hs,
                    content_type = Given (map_of hs ''Content-Type'')\<rparr>)"
proof (intro conjI impI; elim conjE)
  assume a: "rq' = rq\<lparr>app := Some (name self)\<rparr>"
    "run_request_middleware self rq' = (t, Inr u)" "\<not> truthy u"
    "router self rq' = Inr (Some h, args, kwargs, uri)"
    "rq'' = rq'\<lparr>uri_template := uri, endpoint := Some (endpoint_name self h)\<rparr>"
    "call h rq'' args kwargs = Inr V" "\<not> isawaitable V"
  have body: "try_body rt self (enter rq) =
      execute_handler rt self ((enter rq')\<lparr>response := u, trace := t\<rparr>)"
    using try_body_unanswered [of self rq t u rt] a(1-3) by simp
  show 1: "response (try_body rt self (enter rq)) = V"
    using a(4-7) by (simp add: body execute_handler_def normalize_result_def Let_def)
  show 2: "raised (try_body rt self (enter rq)) = None"
    using a(4-7) by (simp add: body execute_handler_def normalize_result_def Let_def)
  show "response (except_clauses rt self (try_body rt self (enter rq))) = V"
    using 1 2 by (simp add: except_clauses_idle)
next
  assume a: "rq' = rq\<lparr>app := Some (name self)\<rparr>"
    "run_request_middleware self rq' = (t, Inr u)" "\<not> truthy u"
    "router self rq' = Inr (Some h, args, kwargs, uri)"
    "rq'' = rq'\<lparr>uri_template := uri, endpoint := Some (endpoint_name self h)\<rparr>"
    "call h rq'' args kwargs = Inr (Awaitable (Inr res))"
    "body_method rt res = Inr b" "context_method rt res = Inr ctx"
    "GetResponseHeaders_method rt ctx = Inr hs" "status_method rt res = Inr s"
  have body: "try_body rt self (enter rq) =
      execute_handler rt self ((enter rq')\<lparr>response := u, trace := t\<rparr>)"
    using try_body_unanswered [of self rq t u rt] a(1-3) by simp
  show 1: "response (try_body rt self (enter rq)) =
          Buffered \<lparr>body = b, status = s, headers = Given hs,
                    content_type = Given (map_of hs ''Content-Type'')\<rparr>"
    using a(4-10) by (simp add: body execute_handler_def normalize_result_def Let_def)
  show 2: "raised (try_body rt self (enter rq)) = None"
    using a(4-10) by (simp add: body execute_handler_def normalize_result_def Let_def)
  show "response (except_clauses rt self (try_body rt self (enter rq))) =
          Buffered \<lparr>body = b, status = s, headers = Given hs,
                    content_type = Given (map_of hs ''Content-Type'')\<rparr>"
    using 1 2 by (simp add: except_clauses_idle)
qed

theorem handler_result_normalized_witness:
  "response (try_body python38 hello_server (enter get_index)) = ok_response
   \<and> response (try_body python38 deferred_server (enter get_index)) =
       Buffered \<lparr>body = ''payload'', status = 200,
                 headers = Given [(''Content-Type'', ''text/plain'')],
                 content_type = Given (Some ''text/plain'')\<rparr>"
proof -
  have first: "response (try_body python38 hello_server (enter get_index)) = ok_response"
    using handler_result_normalized
      [where rq = get_index and self = hello_server and rt = python38 and h = hello
        and rq' = "get_index\<lparr>app := Some ''app''\<rparr>" and t = "[]" and u = PyNone
        and args = "[]" and kwargs = "[]" and uri = "Some ''/''" and V = ok_response
        and rq'' = "get_index\<lparr>app := Some ''app'', uri_template := Some ''/'',
                      endpoint := Some ''app.hello''\<rparr>"]
    by (simp add: hello_server_def hello_def ok_response_def run_request_middleware_def
          endpoint_name_def build_endpoint_name_def)
  have second: "response (try_body python38 deferred_server (enter get_index)) =
       Buffered \<lparr>body = ''payload'', status = 200,
                 headers = Given [(''Content-Type'', ''text/plain'')],
                 content_type = Given (Some ''text/plain'')\<rparr>"
    using handler_result_normalized
      [where rq = get_index and self = deferred_server and rt = python38 and h = deferred
        and rq' = "get_index\<lparr>app := Some ''app''\<rparr>" and t = "[]" and u = PyNone
        and args = "[]" and kwargs = "[]" and uri = "Some ''/''"
        and res = "Object ''payload''" and b = "''payload''" and ctx = "Object ''context''"
        and hs = "[(''Content-Type'', ''text/plain'')]" and s = 200
        and rq'' = "get_index\<lparr>app := Some ''app'', uri_template := Some ''/'',
                      endpoint := Some ''app.hello''\<rparr>"]
    by (simp add: deferred_server_def deferred_def hello_server_def hello_def python38_def
          run_request_middleware_def endpoint_name_def build_endpoint_name_def)
  from first second show ?thesis by simp
qed

subsection \<open>Recovery\<close>

lemma primary_recovery_mapped:
  "resolved (error_handler_response self (request f) e) = Inr r \<Longrightarrow>
   primary_recovery rt self e f =
     (emit [LoggerError ''Exception: '', ErrorHandlerResponse (request f) e] f)\<lparr>response := r\<rparr>"
  by (auto simp: primary_recovery_def resolved_def Let_def split: sum.splits if_splits
           elim: isawaitable.elims)

lemma primary_recovery_failed:
  assumes that: "resolved (error_handler_response self (request f) e) = Inl e2"
  shows "\<exists>stale. primary_recovery rt self e f =
     secondary_recovery rt self e2
       ((emit [LoggerError ''Exception: '', ErrorHandlerResponse (request f) e] f)
          \<lparr>response := stale\<rparr>)"
proof (cases "error_handler_response self (request f) e")
  case (Inl x)
  then have "primary_recovery rt self e f =
      secondary_recovery rt self e2
       ((emit [LoggerError ''Exception: '', ErrorHandlerResponse (request f) e] f)
          \<lparr>response := response f\<rparr>)"
    using that by (simp add: primary_recovery_def resolved_def Let_def emit_def)
  then show ?thesis by blast
next
  case (Inr v)
  then have "primary_recovery rt self e f =
      secondary_recovery rt self e2
       ((emit [LoggerError ''Exception: '', ErrorHandlerResponse (request f) e] f)
          \<lparr>response := v\<rparr>)"
    using that by (auto simp: primary_recovery_def resolved_def Let_def split: if_splits)
  then show ?thesis by blast
qed



lemma finally_clause_returns:
  "raised f = None \<Longrightarrow> \<not> cancelled f \<Longrightarrow>
   (\<And>t. run_response_middleware self (request f) (response f) \<noteq> (t, Inl CancelledError)) \<Longrightarrow>
   raised (finally_clause self f) = None"
  by (auto simp: finally_clause_def Let_def split: sum.splits prod.splits)

lemma try_body_no_handler:
  assumes "run_request_middleware self (rq\<lparr>app := Some (name self)\<rparr>) = (t, Inr u)"
    and "\<not> truthy u"
    and "router self (rq\<lparr>app := Some (name self)\<rparr>) = Inr (None, args, kwargs, uri)"
  shows "try_body rt self (enter rq) =
     \<lparr>request = rq\<lparr>app := Some (name self), uri_template := uri\<rparr>, response = u,
      cancelled = False, raised = Some (ServerError server_error_message),
      trace = t @ [RouterGet (rq\<lparr>app := Some (name self)\<rparr>)]\<rparr>"
  unfolding try_body_unanswered [OF assms(1,2)] using assms(3)
  by (simp add: execute_handler_def Let_def enter_def emit_def raise_def)

lemma primary_recovery_trace_start:
  "\<exists>t. trace (primary_recovery rt self e f) =
     trace f @ [LoggerError ''Exception: '', ErrorHandlerResponse (request f) e] @ t"
  by (simp add: primary_recovery_def secondary_recovery_def Let_def split: sum.splits)

lemma primary_recovery_request [simp]:
  "request (primary_recovery rt self e f) = request f"
  by (simp add: primary_recovery_def Let_def split: sum.splits)

text \<open>
  C5, as the code has it. Let no pre-handler middleware have answered, let the router
  return no handler, and let the error handler not be cancelled while it maps the fault
  (that case is the subject of C7). The \<open>try\<close> body raises \<open>ServerError\<close>, a class of its
  own, and the next calls of the run are the log entry and the error handler's \<open>response\<close>
  with that exception. When the error handler returns a response, that is the response;
  when it raises an exception the inner \<open>except Exception\<close> catches, the secondary
  recovery makes one; in both cases nothing is in flight. That response is handed to
  exactly one callback, once, unless the post-handler middleware run on it is cancelled:
  then \<open>CancelledError\<close> reaches the caller and no callback is called. When the error
  handler raises an exception outside \<open>Exception\<close>, that exception, or a \<open>CancelledError\<close>
  from the \<open>finally\<close> clause, reaches the caller and no callback is called. What leaves the
  \<open>finally\<close> clause is never the \<open>ServerError\<close>.
\<close>

theorem missing_handler_recovered:
  "rq' = rq\<lparr>app := Some (name self)\<rparr> \<and>
   run_request_middleware self rq' = (t, Inr u) \<and> \<not> truthy u \<and>
   router self rq' = Inr (None, args, kwargs, uri) \<and>
   rq'' = rq'\<lparr>uri_template := uri\<rparr> \<and> fault = ServerError server_error_message \<and>
   resolved (error_handler_response self rq'' fault) \<noteq> Inl CancelledError \<and>
   g = except_clauses rt self (try_body rt self (enter rq)) \<and>
   H = handle_request rt self rq wcb scb
   \<longrightarrow> raised (try_body rt self (enter rq)) = Some fault
     \<and> (\<exists>rest. trace H =
           t @ [RouterGet rq', LoggerError ''Exception: '', ErrorHandlerResponse rq'' fault] @ rest)
     \<and> (\<forall>r. resolved (error_handler_response self rq'' fault) = Inr r \<longrightarrow>
           raised g = None \<and> response g = r)
     \<and> (\<forall>e'. resolved (error_handler_response self rq'' fault) = Inl e' \<and>
              isinstance_Exception rt e' \<longrightarrow> raised g = None)
     \<and> (\<forall>s. resolved (error_handler_response self rq'' fault) = Inl (BaseException s) \<longrightarrow>
           filter is_callback (trace H) = [] \<and>
           (raised H = Some (BaseException s) \<or> raised H = Some CancelledError))
     \<and> (raised g = None \<and> response g \<noteq> PyNone \<and>
        run_response_middleware self rq'' (response g) = (tc, Inl CancelledError) \<longrightarrow>
           filter is_callback (trace H) = [] \<and> raised H = Some CancelledError)
     \<and> (raised g = None \<and>
        (response g = PyNone \<or>
         (\<forall>t'. run_response_middleware self rq'' (response g) \<noteq> (t', Inl CancelledError))) \<longrightarrow>
           filter is_callback (trace H) =
             [if isinstance_StreamingHTTPResponse (response H)
              then StreamCallback (response H) else WriteCallback (response H)] \<and>
           raised H =
             (if isinstance_StreamingHTTPResponse (response H)
              then scb (response H) else wcb (response H)))
     \<and> (\<forall>x. raised (finally_clause self g) = Some x \<longrightarrow>
           x = CancelledError \<or> (\<exists>s. x = BaseException s))"
proof (intro impI; elim conjE)
  assume a: "rq' = rq\<lparr>app := Some (name self)\<rparr>"
    "run_request_middleware self rq' = (t, Inr u)" "\<not> truthy u"
    "router self rq' = Inr (None, args, kwargs, uri)"
    "rq'' = rq'\<lparr>uri_template := uri\<rparr>" "fault = ServerError server_error_message"
    "resolved (error_handler_response self rq'' fault) \<noteq> Inl CancelledError"
  assume g: "g = except_clauses rt self (try_body rt self (enter rq))"
  assume H: "H = handle_request rt self rq wcb scb"
  let ?f = "try_body rt self (enter rq)"
  let ?start = "\<lparr>request = rq'', response = u, cancelled = False, raised = None,
      trace = t @ [RouterGet rq']\<rparr>"
  let ?logged = "emit [LoggerError ''Exception: '', ErrorHandlerResponse rq'' fault] ?start"
  have f: "?f = \<lparr>request = rq'', response = u, cancelled = False, raised = Some fault,
      trace = t @ [RouterGet rq']\<rparr>"
    using try_body_no_handler [of self rq t u args kwargs uri rt] a(1-6) by simp
  have rec: "g = primary_recovery rt self fault ?start"
    unfolding g using a(6) by (simp add: f except_clauses_def)
  have nc: "\<not> cancelled g" and rq: "request g = rq''"
    by (simp_all add: rec)
  have 1: "raised ?f = Some fault"
    by (simp add: f)
  have "\<exists>t1. trace g =
      t @ [RouterGet rq', LoggerError ''Exception: '', ErrorHandlerResponse rq'' fault] @ t1"
    unfolding rec using primary_recovery_trace_start [of rt self fault ?start] by simp
  then obtain t1 where t1: "trace g =
      t @ [RouterGet rq', LoggerError ''Exception: '', ErrorHandlerResponse rq'' fault] @ t1"
    by blast
  obtain t2 where "trace (handle_request rt self rq wcb scb) = trace g @ t2"
    using finally_clause_trace [of self g] output_router_trace [of wcb scb "finally_clause self g"]
    by (auto simp: handle_request_def g)
  then have 2: "\<exists>rest. trace (handle_request rt self rq wcb scb) =
      t @ [RouterGet rq', LoggerError ''Exception: '', ErrorHandlerResponse rq'' fault] @ rest"
    using t1 by simp
  have 3: "\<forall>r. resolved (error_handler_response self rq'' fault) = Inr r \<longrightarrow>
      raised g = None \<and> response g = r"
    unfolding rec using primary_recovery_mapped [of self ?start fault _ rt] by simp
  have failed: "\<exists>stale. g = secondary_recovery rt self e' (?logged\<lparr>response := stale\<rparr>)"
    if "resolved (error_handler_response self rq'' fault) = Inl e'" for e'
    unfolding rec using primary_recovery_failed [of self ?start fault e' rt] that by simp
  have 4: "\<forall>e'. resolved (error_handler_response self rq'' fault) = Inl e' \<and>
      isinstance_Exception rt e' \<longrightarrow> raised g = None"
  proof (intro allI impI; elim conjE)
    fix e' assume e': "resolved (error_handler_response self rq'' fault) = Inl e'"
      "isinstance_Exception rt e'"
    from failed [OF e'(1)] obtain stale where
      "g = secondary_recovery rt self e' (?logged\<lparr>response := stale\<rparr>)" by blast
    then show "raised g = None"
      using e'(2) by (simp add: secondary_recovery_raised)
  qed
  have 5: "\<forall>s. resolved (error_handler_response self rq'' fault) = Inl (BaseException s) \<longrightarrow>
      filter is_callback (trace (handle_request rt self rq wcb scb)) = [] \<and>
      (raised (handle_request rt self rq wcb scb) = Some (BaseException s) \<or>
       raised (handle_request rt self rq wcb scb) = Some CancelledError)"
  proof (intro allI impI)
    fix s assume "resolved (error_handler_response self rq'' fault) = Inl (BaseException s)"
    from failed [OF this] obtain stale where
      "g = secondary_recovery rt self (BaseException s) (?logged\<lparr>response := stale\<rparr>)" by blast
    then have "raised g = Some (BaseException s)"
      by (simp add: secondary_recovery_raised)
    then have "raised (finally_clause self g) = Some (BaseException s) \<or>
        raised (finally_clause self g) = Some CancelledError"
      using finally_clause_in_flight by blast
    then show "filter is_callback (trace (handle_request rt self rq wcb scb)) = [] \<and>
      (raised (handle_request rt self rq wcb scb) = Some (BaseException s) \<or>
       raised (handle_request rt self rq wcb scb) = Some CancelledError)"
      using handle_request_unfinished [OF g, where wcb = wcb and scb = scb] by auto
  qed
  have 6: "raised g = None \<and> response g \<noteq> PyNone \<and>
      run_response_middleware self rq'' (response g) = (tc, Inl CancelledError) \<longrightarrow>
      filter is_callback (trace (handle_request rt self rq wcb scb)) = [] \<and>
      raised (handle_request rt self rq wcb scb) = Some CancelledError"
  proof (intro impI; elim conjE)
    assume "raised g = None" "response g \<noteq> PyNone"
      "run_response_middleware self rq'' (response g) = (tc, Inl CancelledError)"
    then have "raised (finally_clause self g) = Some CancelledError"
      using finally_clause_cancellation [OF nc, of self tc] rq by simp
    then show "filter is_callback (trace (handle_request rt self rq wcb scb)) = [] \<and>
      raised (handle_request rt self rq wcb scb) = Some CancelledError"
      using handle_request_unfinished [OF g, where wcb = wcb and scb = scb] by simp
  qed
  have 7: "raised g = None \<and>
      (response g = PyNone \<or>
       (\<forall>t'. run_response_middleware self rq'' (response g) \<noteq> (t', Inl CancelledError))) \<longrightarrow>
      filter is_callback (trace (handle_request rt self rq wcb scb)) =
          [if isinstance_StreamingHTTPResponse (response (handle_request rt self rq wcb scb))
           then StreamCallback (response (handle_request rt self rq wcb scb))
           else WriteCallback (response (handle_request rt self rq wcb scb))] \<and>
      raised (handle_request rt self rq wcb scb) =
          (if isinstance_StreamingHTTPResponse (response (handle_request rt self rq wcb scb))
           then scb (response (handle_request rt self rq wcb scb))
           else wcb (response (handle_request rt self rq wcb scb)))"
  proof (intro impI; elim conjE)
    assume none: "raised g = None"
      and calm: "response g = PyNone \<or>
       (\<forall>t'. run_response_middleware self rq'' (response g) \<noteq> (t', Inl CancelledError))"
    have "raised (finally_clause self g) = None"
    proof (cases "response g = PyNone")
      case True
      then show ?thesis
        using finally_clause_absent [OF nc, of self] none by simp
    next
      case False
      with calm show ?thesis
        using finally_clause_returns [OF none nc, of self] rq by simp
    qed
    then show "filter is_callback (trace (handle_request rt self rq wcb scb)) =
          [if isinstance_StreamingHTTPResponse (response (handle_request rt self rq wcb scb))
           then StreamCallback (response (handle_request rt self rq wcb scb))
           else WriteCallback (response (handle_request rt self rq wcb scb))] \<and>
      raised (handle_request rt self rq wcb scb) =
          (if isinstance_StreamingHTTPResponse (response (handle_request rt self rq wcb scb))
           then scb (response (handle_request rt self rq wcb scb))
           else wcb (response (handle_request rt self rq wcb scb)))"
      using handle_request_delivered [OF g, where wcb = wcb and scb = scb] by blast
  qed
  have 8: "\<forall>x. raised (finally_clause self g) = Some x \<longrightarrow>
      x = CancelledError \<or> (\<exists>s. x = BaseException s)"
    unfolding g using before_output_raised by blast
  show "raised (try_body rt self (enter rq)) = Some fault
     \<and> (\<exists>rest. trace H =
           t @ [RouterGet rq', LoggerError ''Exception: '', ErrorHandlerResponse rq'' fault] @ rest)
     \<and> (\<forall>r. resolved (error_handler_response self rq'' fault) = Inr r \<longrightarrow>
           raised g = None \<and> response g = r)
     \<and> (\<forall>e'. resolved (error_handler_response self rq'' fault) = Inl e' \<and>
              isinstance_Exception rt e' \<longrightarrow> raised g = None)
     \<and> (\<forall>s. resolved (error_handler_response self rq'' fault) = Inl (BaseException s) \<longrightarrow>
           filter is_callback (trace H) = [] \<and>
           (raised H = Some (BaseException s) \<or> raised H = Some CancelledError))
     \<and> (raised g = None \<and> response g \<noteq> PyNone \<and>
        run_response_middleware self rq'' (response g) = (tc, Inl CancelledError) \<longrightarrow>
           filter is_callback (trace H) = [] \<and> raised H = Some CancelledError)
     \<and> (raised g = None \<and>
        (response g = PyNone \<or>
         (\<forall>t'. run_response_middleware self rq'' (response g) \<noteq> (t', Inl CancelledError))) \<longrightarrow>
           filter is_callback (trace H) =
             [if isinstance_StreamingHTTPResponse (response H)
              then StreamCallback (response H) else WriteCallback (response H)] \<and>
           raised H =
             (if isinstance_StreamingHTTPResponse (response H)
              then scb (response H) else wcb (response H)))
     \<and> (\<forall>x. raised (finally_clause self g) = Some x \<longrightarrow>
           x = CancelledError \<or> (\<exists>s. x = BaseException s))"
    unfolding H using 1 2 3 4 5 6 7 8 by blast
qed

theorem missing_handler_recovered_witness:
  "raised (try_body python38 unrouted_server (enter get_index)) =
     Some (ServerError server_error_message)
   \<and> filter is_callback (trace (handle_request python38 unrouted_server get_index accepting accepting))
       = [WriteCallback (Buffered \<lparr>body = server_error_message, status = 500,
                                    headers = Default, content_type = Default\<rparr>)]
   \<and> raised (handle_request python38 unrouted_server get_index accepting accepting) = None
   \<and> filter is_callback
        (trace (handle_request python38 unrouted_timeout_server get_index accepting accepting)) = []"
proof -
  let ?rq = "get_index\<lparr>app := Some ''app''\<rparr>"
  let ?page = "Buffered \<lparr>body = server_error_message, status = 500, headers = Default,
      content_type = Default\<rparr>"
  let ?mapped = "\<lparr>request = ?rq, response = ?page, cancelled = False, raised = None,
      trace = [RouterGet ?rq, LoggerError ''Exception: '',
               ErrorHandlerResponse ?rq (ServerError server_error_message)]\<rparr>"
  have before: "except_clauses python38 unrouted_server
        (try_body python38 unrouted_server (enter get_index)) = ?mapped"
    "except_clauses python38 unrouted_timeout_server
        (try_body python38 unrouted_timeout_server (enter get_index)) = ?mapped"
    by (simp_all add: pipeline_defs example_defs)
  have runs: "run_response_middleware unrouted_server ?rq ?page = ([], Inr ?page)"
    "run_response_middleware unrouted_timeout_server ?rq ?page =
      ([ResponseMiddleware 0 ?rq ?page], Inl CancelledError)"
    by (simp_all add: run_response_middleware_def resolved_def unrouted_server_def
          unrouted_timeout_server_def hello_server_def)
  have handler: "resolved (error_handler_response unrouted_server ?rq
        (ServerError server_error_message)) = Inr ?page"
    "resolved (error_handler_response unrouted_timeout_server ?rq
        (ServerError server_error_message)) = Inr ?page"
    by (simp_all add: resolved_def unrouted_server_def unrouted_timeout_server_def
          hello_server_def)
  have delivered: "response (handle_request python38 unrouted_server get_index accepting accepting)
      = ?page"
    by (simp add: pipeline_defs example_defs)
  have servers: "name unrouted_server = ''app''" "name unrouted_timeout_server = ''app''"
    "run_request_middleware unrouted_server ?rq = ([], Inr PyNone)"
    "run_request_middleware unrouted_timeout_server ?rq = ([], Inr PyNone)"
    "router unrouted_server ?rq = Inr (None, [], [], None)"
    "router unrouted_timeout_server ?rq = Inr (None, [], [], None)"
    by (simp_all add: run_request_middleware_def unrouted_server_def
          unrouted_timeout_server_def hello_server_def)
  have same: "?rq\<lparr>uri_template := None\<rparr> = ?rq"
    by (simp add: get_index_def)
  have first: "raised (try_body python38 unrouted_server (enter get_index)) =
     Some (ServerError server_error_message)
   \<and> filter is_callback (trace (handle_request python38 unrouted_server get_index accepting accepting))
       = [WriteCallback ?page]
   \<and> raised (handle_request python38 unrouted_server get_index accepting accepting) = None"
    using missing_handler_recovered
      [where rq = get_index and self = unrouted_server and rt = python38
        and rq' = ?rq and t = "[]" and u = PyNone
        and args = "[]" and kwargs = "[]" and uri = None and rq'' = ?rq
        and fault = "ServerError server_error_message" and g = ?mapped
        and H = "handle_request python38 unrouted_server get_index accepting accepting"
        and wcb = accepting and scb = accepting]
    by (simp add: before runs handler delivered servers same accepting_def)
  have second: "filter is_callback
        (trace (handle_request python38 unrouted_timeout_server get_index accepting accepting)) = []"
    using missing_handler_recovered
      [where rq = get_index and self = unrouted_timeout_server and rt = python38
        and rq' = ?rq and t = "[]" and u = PyNone
        and args = "[]" and kwargs = "[]" and uri = None and rq'' = ?rq
        and fault = "ServerError server_error_message" and g = ?mapped
        and H = "handle_request python38 unrouted_timeout_server get_index accepting accepting"
        and wcb = accepting and scb = accepting
        and tc = "[ResponseMiddleware 0 ?rq ?page]"]
    by (simp add: before runs handler servers same)
  from first second show ?thesis by simp
qed

text \<open>
  C5 as the spec states it promises a callback for every request the router has no
  handler for. When the post-handler middleware is cancelled while it works on the error
  response, the \<open>except CancelledError\<close> clause of the \<open>finally\<close> block drops that
  response: \<open>CancelledError\<close> reaches the caller and no callback is called.
\<close>

theorem missing_handler_cancelled:
  "raised (handle_request python38 unrouted_timeout_server get_index accepting accepting) =
     Some CancelledError
   \<and> filter is_callback
       (trace (handle_request python38 unrouted_timeout_server get_index accepting accepting)) = []
   \<and> raised (handle_request python37 unrouted_timeout_server get_index accepting accepting) =
     Some CancelledError
   \<and> filter is_callback
       (trace (handle_request python37 unrouted_timeout_server get_index accepting accepting)) = []"
  by (simp add: pipeline_defs example_defs)




subsection \<open>Cancellation during recovery\<close>

text \<open>
  A cancellation raised in the \<open>try\<close> body is handled as the comments of the code say:
  \<open>response\<close> is dropped, no further call is made, and \<open>CancelledError\<close> is raised to
  the caller.
\<close>

lemma cancellation_in_try_body:
  assumes "raised (try_body rt self (enter rq)) = Some CancelledError"
  shows "raised (handle_request rt self rq wcb scb) = Some CancelledError"
    and "response (handle_request rt self rq wcb scb) = PyNone"
    and "trace (handle_request rt self rq wcb scb) = trace (try_body rt self (enter rq))"
  using assms
  by (simp_all add: handle_request_def except_clauses_def finally_clause_def
        output_router_def raise_def)

text \<open>
  C7, evaluated where it fails. The handler raises, and the awaitable the error handler
  returned is cancelled while it is awaited. The inner \<open>try\<close> has no clause for
  \<open>CancelledError\<close>. From Python 3.8 on the exception leaves both \<open>try\<close> statements with
  \<open>response\<close> still bound to the awaitable, so the \<open>finally\<close> clause calls the post-handler
  middleware with that awaitable before the cancellation reaches the caller. Up to Python
  3.7 the inner \<open>except Exception\<close> catches the cancellation and turns it into a 500
  response, which is handed to the write callback; the run returns when that call does.
\<close>

theorem cancellation_during_recovery:
  "trace (handle_request python38 interrupted_server get_index wcb scb) =
     [RouterGet (get_index\<lparr>app := Some ''app''\<rparr>),
      HandlerCall ''hello'' dispatched,
      LoggerError ''Exception: '',
      ErrorHandlerResponse dispatched (Exception ''boom''),
      ResponseMiddleware 0 dispatched (Awaitable (Inl CancelledError))]
   \<and> raised (handle_request python38 interrupted_server get_index wcb scb) = Some CancelledError
   \<and> trace (handle_request python37 interrupted_server get_index wcb scb) =
     [RouterGet (get_index\<lparr>app := Some ''app''\<rparr>),
      HandlerCall ''hello'' dispatched,
      LoggerError ''Exception: '',
      ErrorHandlerResponse dispatched (Exception ''boom''),
      ResponseMiddleware 0 dispatched opaque_500,
      WriteCallback opaque_500]
   \<and> raised (handle_request python37 interrupted_server get_index wcb scb) = wcb opaque_500
   \<and> raised (handle_request python37 interrupted_server get_index accepting scb) = None"
  by (simp add: pipeline_defs example_defs)

subsection \<open>Failures of the post-handler middleware\<close>

text \<open>
  C8. Let the \<open>except\<close> clauses end with nothing in flight and a response present. The
  calls of the post-handler runner on that response follow in the trace. If the runner
  raises \<open>CancelledError\<close>, \<open>response\<close> is set to \<open>None\<close>, the run ends there with
  \<open>CancelledError\<close> raised to the caller, and no callback has been called. If it raises
  anything else, the run logs the failure, nothing is in flight when the \<open>finally\<close>
  clause ends, and the response computed before is handed, unchanged, to its callback:
  the run returns when that call returns, and nothing but what that call raises reaches
  the caller.
\<close>

theorem response_middleware_failure:
  "g = except_clauses rt self (try_body rt self (enter rq)) \<and> raised g = None \<and>
   response g \<noteq> PyNone \<and> run_response_middleware self (request g) (response g) = (t, r)
   \<longrightarrow> (\<exists>rest. trace (handle_request rt self rq wcb scb) = trace g @ t @ rest)
     \<and> (r = Inl CancelledError \<longrightarrow>
           raised (handle_request rt self rq wcb scb) = Some CancelledError
         \<and> response (handle_request rt self rq wcb scb) = PyNone
         \<and> trace (handle_request rt self rq wcb scb) = trace g @ t
         \<and> filter is_callback (trace (handle_request rt self rq wcb scb)) = [])
     \<and> (\<forall>e. r = Inl e \<and> e \<noteq> CancelledError \<longrightarrow>
           raised (finally_clause self g) = None
         \<and> raised (handle_request rt self rq wcb scb) =
               (if isinstance_StreamingHTTPResponse (response g)
                then scb (response g) else wcb (response g))
         \<and> response (handle_request rt self rq wcb scb) = response g
         \<and> trace (handle_request rt self rq wcb scb) =
             trace g @ t @
             [LoggerError ''Exception occurred in one of response middleware handlers'',
              if isinstance_StreamingHTTPResponse (response g)
              then StreamCallback (response g) else WriteCallback (response g)])"
proof (intro impI; elim conjE)
  assume a: "g = except_clauses rt self (try_body rt self (enter rq))" "raised g = None"
    "response g \<noteq> PyNone" "run_response_middleware self (request g) (response g) = (t, r)"
  have nc: "\<not> cancelled g"
    using present_not_cancelled [of rt self rq] a(1,3) by simp
  have run: "handle_request rt self rq wcb scb = output_router wcb scb (finally_clause self g)"
    by (simp add: handle_request_def a(1))
  have 1: "\<exists>rest. trace (handle_request rt self rq wcb scb) = trace g @ t @ rest"
  proof (cases r)
    case (Inl e)
    show ?thesis
    proof (cases "e = CancelledError")
      case True
      then show ?thesis
        using finally_clause_cancellation [OF nc a(3), of self t] a(4) Inl
        by (simp add: run output_router_def)
    next
      case False
      then show ?thesis
        using finally_clause_swallows [OF nc a(3), of self t e] a(4) Inl a(2)
        by (simp add: run output_router_def)
    qed
  next
    case (Inr v)
    then have "finally_clause self g = (emit t g)\<lparr>response := v\<rparr>"
      using a(3,4) nc by (simp add: finally_clause_def Let_def)
    then show ?thesis
      using a(2) by (simp add: run output_router_def)
  qed
  have 2: "r = Inl CancelledError \<longrightarrow>
           raised (handle_request rt self rq wcb scb) = Some CancelledError
         \<and> response (handle_request rt self rq wcb scb) = PyNone
         \<and> trace (handle_request rt self rq wcb scb) = trace g @ t
         \<and> filter is_callback (trace (handle_request rt self rq wcb scb)) = []"
  proof
    assume r: "r = Inl CancelledError"
    have fin: "finally_clause self g =
        g\<lparr>response := PyNone, cancelled := True, raised := Some CancelledError,
          trace := trace g @ t\<rparr>"
      using finally_clause_cancellation [OF nc a(3), of self t] a(4) r by simp
    have "filter is_callback t = []"
      using response_middleware_filter [of self "request g" "response g" t r is_callback] a(4)
      by simp
    moreover have "filter is_callback (trace g) = []"
      using before_finally_no_callback [of rt self rq] a(1) by simp
    ultimately show "raised (handle_request rt self rq wcb scb) = Some CancelledError
         \<and> response (handle_request rt self rq wcb scb) = PyNone
         \<and> trace (handle_request rt self rq wcb scb) = trace g @ t
         \<and> filter is_callback (trace (handle_request rt self rq wcb scb)) = []"
      by (simp add: run fin output_router_def)
  qed
  have 3: "\<forall>e. r = Inl e \<and> e \<noteq> CancelledError \<longrightarrow>
           raised (finally_clause self g) = None
         \<and> raised (handle_request rt self rq wcb scb) =
               (if isinstance_StreamingHTTPResponse (response g)
                then scb (response g) else wcb (response g))
         \<and> response (handle_request rt self rq wcb scb) = response g
         \<and> trace (handle_request rt self rq wcb scb) =
             trace g @ t @
             [LoggerError ''Exception occurred in one of response middleware handlers'',
              if isinstance_StreamingHTTPResponse (response g)
              then StreamCallback (response g) else WriteCallback (response g)]"
  proof (intro allI impI; elim conjE)
    fix e assume r: "r = Inl e" "e \<noteq> CancelledError"
    have fin: "finally_clause self g =
        g\<lparr>trace := trace g @ t @
          [LoggerError ''Exception occurred in one of response middleware handlers'']\<rparr>"
      using finally_clause_swallows [OF nc a(3), of self t e] a(4) r by simp
    show "raised (finally_clause self g) = None
         \<and> raised (handle_request rt self rq wcb scb) =
               (if isinstance_StreamingHTTPResponse (response g)
                then scb (response g) else wcb (response g))
         \<and> response (handle_request rt self rq wcb scb) = response g
         \<and> trace (handle_request rt self rq wcb scb) =
             trace g @ t @
             [LoggerError ''Exception occurred in one of response middleware handlers'',
              if isinstance_StreamingHTTPResponse (response g)
              then StreamCallback (response g) else WriteCallback (response g)]"
      using a(2) by (simp add: run fin output_router_def emit_def)
  qed
  from 1 2 3 show "(\<exists>rest. trace (handle_request rt self rq wcb scb) = trace g @ t @ rest)
     \<and> (r = Inl CancelledError \<longrightarrow>
           raised (handle_request rt self rq wcb scb) = Some CancelledError
         \<and> response (handle_request rt self rq wcb scb) = PyNone
         \<and> trace (handle_request rt self rq wcb scb) = trace g @ t
         \<and> filter is_callback (trace (handle_request rt self rq wcb scb)) = [])
     \<and> (\<forall>e. r = Inl e \<and> e \<noteq> CancelledError \<longrightarrow>
           raised (finally_clause self g) = None
         \<and> raised (handle_request rt self rq wcb scb) =
               (if isinstance_StreamingHTTPResponse (response g)
                then scb (response g) else wcb (response g))
         \<and> response (handle_request rt self rq wcb scb) = response g
         \<and> trace (handle_request rt self rq wcb scb) =
             trace g @ t @
             [LoggerError ''Exception occurred in one of response middleware handlers'',
              if isinstance_StreamingHTTPResponse (response g)
              then StreamCallback (response g) else WriteCallback (response g)])"
    by blast
qed


theorem response_middleware_failure_witness:
  "raised (handle_request python38 timeout_server get_index accepting accepting) = Some CancelledError
   \<and> trace (handle_request python38 timeout_server get_index accepting accepting) =
       [RouterGet (get_index\<lparr>app := Some ''app''\<rparr>), HandlerCall ''hello'' dispatched,
        ResponseMiddleware 0 dispatched ok_response]
   \<and> raised (handle_request python38 faulty_server get_index accepting accepting) = None
   \<and> trace (handle_request python38 faulty_server get_index accepting accepting) =
       [RouterGet (get_index\<lparr>app := Some ''app''\<rparr>), HandlerCall ''hello'' dispatched,
        ResponseMiddleware 0 dispatched ok_response,
        LoggerError ''Exception occurred in one of response middleware handlers'',
        WriteCallback ok_response]"
proof -
  have before: "except_clauses python38 timeout_server
        (try_body python38 timeout_server (enter get_index)) =
      \<lparr>request = dispatched, response = ok_response, cancelled = False, raised = None,
       trace = [RouterGet (get_index\<lparr>app := Some ''app''\<rparr>), HandlerCall ''hello'' dispatched]\<rparr>"
    "except_clauses python38 faulty_server
        (try_body python38 faulty_server (enter get_index)) =
      \<lparr>request = dispatched, response = ok_response, cancelled = False, raised = None,
       trace = [RouterGet (get_index\<lparr>app := Some ''app''\<rparr>), HandlerCall ''hello'' dispatched]\<rparr>"
    by (simp_all add: pipeline_defs example_defs)
  have runs: "run_response_middleware timeout_server dispatched ok_response =
      ([ResponseMiddleware 0 dispatched ok_response], Inl CancelledError)"
    "run_response_middleware faulty_server dispatched ok_response =
      ([ResponseMiddleware 0 dispatched ok_response], Inl (Exception ''stamp failed''))"
    by (simp_all add: run_response_middleware_def resolved_def timeout_server_def
          faulty_server_def hello_server_def)
  have first: "raised (handle_request python38 timeout_server get_index accepting accepting) = Some CancelledError
   \<and> trace (handle_request python38 timeout_server get_index accepting accepting) =
       [RouterGet (get_index\<lparr>app := Some ''app''\<rparr>), HandlerCall ''hello'' dispatched,
        ResponseMiddleware 0 dispatched ok_response]"
    using response_middleware_failure
      [where rt = python38 and self = timeout_server and rq = get_index
        and wcb = accepting and scb = accepting
        and t = "[ResponseMiddleware 0 dispatched ok_response]" and r = "Inl CancelledError"
        and g = "\<lparr>request = dispatched, response = ok_response, cancelled = False,
          raised = None,
          trace = [RouterGet (get_index\<lparr>app := Some ''app''\<rparr>),
                   HandlerCall ''hello'' dispatched]\<rparr>"]
    by (simp add: before runs ok_response_facts accepting_def)
  have second: "raised (handle_request python38 faulty_server get_index accepting accepting) = None
   \<and> trace (handle_request python38 faulty_server get_index accepting accepting) =
       [RouterGet (get_index\<lparr>app := Some ''app''\<rparr>), HandlerCall ''hello'' dispatched,
        ResponseMiddleware 0 dispatched ok_response,
        LoggerError ''Exception occurred in one of response middleware handlers'',
        WriteCallback ok_response]"
    using response_middleware_failure
      [where rt = python38 and self = faulty_server and rq = get_index
        and wcb = accepting and scb = accepting
        and t = "[ResponseMiddleware 0 dispatched ok_response]"
        and r = "Inl (Exception ''stamp failed'')"
        and g = "\<lparr>request = dispatched, response = ok_response, cancelled = False,
          raised = None,
          trace = [RouterGet (get_index\<lparr>app := Some ''app''\<rparr>),
                   HandlerCall ''hello'' dispatched]\<rparr>"]
    by (simp add: before runs ok_response_facts accepting_def)
  from first second show ?thesis by simp
qed

text \<open>
  C10. The second clause around the post-handler runner is \<open>except BaseException\<close>: an
  exception outside \<open>Exception\<close> that is not a \<open>CancelledError\<close>, raised by a post-handler
  middleware when a response is present and nothing is in flight, is logged and goes no
  further: nothing is in flight when the \<open>finally\<close> clause ends. The response computed
  before is handed to its callback, the only callback called, and the run returns when
  that call returns; nothing but what that call raises reaches the caller.
\<close>

theorem response_middleware_signal_swallowed:
  "g = except_clauses rt self (try_body rt self (enter rq)) \<and> raised g = None \<and>
   response g \<noteq> PyNone \<and>
   run_response_middleware self (request g) (response g) = (t, Inl (BaseException s))
   \<longrightarrow> raised (finally_clause self g) = None
     \<and> raised (handle_request rt self rq wcb scb) =
           (if isinstance_StreamingHTTPResponse (response g)
            then scb (response g) else wcb (response g))
     \<and> trace (handle_request rt self rq wcb scb) =
         trace g @ t @
         [LoggerError ''Exception occurred in one of response middleware handlers'',
          if isinstance_StreamingHTTPResponse (response g)
          then StreamCallback (response g) else WriteCallback (response g)]
     \<and> filter is_callback (trace (handle_request rt self rq wcb scb)) =
         [if isinstance_StreamingHTTPResponse (response g)
          then StreamCallback (response g) else WriteCallback (response g)]"
proof (intro impI; elim conjE)
  assume a: "g = except_clauses rt self (try_body rt self (enter rq))" "raised g = None"
    "response g \<noteq> PyNone"
    "run_response_middleware self (request g) (response g) = (t, Inl (BaseException s))"
  have nc: "\<not> cancelled g"
    using present_not_cancelled [of rt self rq] a(1,3) by simp
  have run: "handle_request rt self rq wcb scb = output_router wcb scb (finally_clause self g)"
    by (simp add: handle_request_def a(1))
  have fin: "finally_clause self g =
      g\<lparr>trace := trace g @ t @
        [LoggerError ''Exception occurred in one of response middleware handlers'']\<rparr>"
    using finally_clause_swallows [OF nc a(3,4)] by simp
  have "filter is_callback t = []"
    using response_middleware_filter [OF a(4), of is_callback] by simp
  moreover have "filter is_callback (trace g) = []"
    using before_finally_no_callback [of rt self rq] a(1) by simp
  ultimately show "raised (finally_clause self g) = None
     \<and> raised (handle_request rt self rq wcb scb) =
           (if isinstance_StreamingHTTPResponse (response g)
            then scb (response g) else wcb (response g))
     \<and> trace (handle_request rt self rq wcb scb) =
         trace g @ t @
         [LoggerError ''Exception occurred in one of response middleware handlers'',
          if isinstance_StreamingHTTPResponse (response g)
          then StreamCallback (response g) else WriteCallback (response g)]
     \<and> filter is_callback (trace (handle_request rt self rq wcb scb)) =
         [if isinstance_StreamingHTTPResponse (response g)
          then StreamCallback (response g) else WriteCallback (response g)]"
    using a(2) by (simp add: run fin output_router_def emit_def)
qed

theorem response_middleware_signal_swallowed_witness:
  "raised (handle_request python38 interrupt_server get_index accepting accepting) = None
   \<and> trace (handle_request python38 interrupt_server get_index accepting accepting) =
       [RouterGet (get_index\<lparr>app := Some ''app''\<rparr>), HandlerCall ''hello'' dispatched,
        ResponseMiddleware 0 dispatched ok_response,
        LoggerError ''Exception occurred in one of response middleware handlers'',
        WriteCallback ok_response]"
proof -
  have before: "except_clauses python38 interrupt_server
        (try_body python38 interrupt_server (enter get_index)) =
      \<lparr>request = dispatched, response = ok_response, cancelled = False, raised = None,
       trace = [RouterGet (get_index\<lparr>app := Some ''app''\<rparr>), HandlerCall ''hello'' dispatched]\<rparr>"
    by (simp add: pipeline_defs example_defs)
  have runs: "run_response_middleware interrupt_server dispatched ok_response =
      ([ResponseMiddleware 0 dispatched ok_response], Inl (BaseException ''KeyboardInterrupt''))"
    by (simp add: run_response_middleware_def resolved_def interrupt_server_def hello_server_def)
  show ?thesis
    using response_middleware_signal_swallowed
      [where rt = python38 and self = interrupt_server and rq = get_index
        and wcb = accepting and scb = accepting
        and t = "[ResponseMiddleware 0 dispatched ok_response]" and s = "''KeyboardInterrupt''"
        and g = "\<lparr>request = dispatched, response = ok_response, cancelled = False,
          raised = None,
          trace = [RouterGet (get_index\<lparr>app := Some ''app''\<rparr>),
                   HandlerCall ''hello'' dispatched]\<rparr>"]
    by (simp add: before runs ok_response_facts accepting_def)
qed

subsection \<open>A handler that returns \<open>None\<close>\<close>

text \<open>
  C9. When no pre-handler middleware answered and the handler returns \<open>None\<close>, not an
  awaitable, nothing is in flight and \<open>cancelled\<close> is unset when the \<open>finally\<close> clause
  ends; after the pre-handler middleware the calls of the run are the router's, the
  handler's and one call of the write callback with \<open>None\<close>, and the run returns when
  that call returns. No post-handler middleware is called.
\<close>

theorem handler_returns_none:
  "rq' = rq\<lparr>app := Some (name self)\<rparr> \<and>
   run_request_middleware self rq' = (t, Inr u) \<and> \<not> truthy u \<and>
   router self rq' = Inr (Some h, args, kwargs, uri) \<and>
   rq'' = rq'\<lparr>uri_template := uri, endpoint := Some (endpoint_name self h)\<rparr> \<and>
   call h rq'' args kwargs = Inr PyNone
   \<longrightarrow> raised (finally_clause self (except_clauses rt self (try_body rt self (enter rq)))) = None
     \<and> raised (handle_request rt self rq wcb scb) = wcb PyNone
     \<and> \<not> cancelled (handle_request rt self rq wcb scb)
     \<and> trace (handle_request rt self rq wcb scb) =
         t @ [RouterGet rq', HandlerCall (dunder_name h) rq'', WriteCallback PyNone]
     \<and> filter is_response_middleware (trace (handle_request rt self rq wcb scb)) = []
     \<and> filter is_callback (trace (handle_request rt self rq wcb scb)) = [WriteCallback PyNone]"
proof (intro impI; elim conjE)
  assume a: "rq' = rq\<lparr>app := Some (name self)\<rparr>"
    "run_request_middleware self rq' = (t, Inr u)" "\<not> truthy u"
    "router self rq' = Inr (Some h, args, kwargs, uri)"
    "rq'' = rq'\<lparr>uri_template := uri, endpoint := Some (endpoint_name self h)\<rparr>"
    "call h rq'' args kwargs = Inr PyNone"
  let ?done = "\<lparr>request = rq'', response = PyNone, cancelled = False, raised = None,
      trace = t @ [RouterGet rq', HandlerCall (dunder_name h) rq'']\<rparr>"
  have "try_body rt self (enter rq) =
      execute_handler rt self ((enter rq')\<lparr>response := u, trace := t\<rparr>)"
    using try_body_unanswered [of self rq t u rt] a(1-3) by simp
  then have body: "try_body rt self (enter rq) = ?done"
    using a(4-6)
    by (simp add: execute_handler_def normalize_result_def Let_def enter_def emit_def)
  have "finally_clause self (except_clauses rt self ?done) = ?done"
    by (simp add: except_clauses_idle finally_clause_absent)
  then have run: "handle_request rt self rq wcb scb = output_router wcb scb ?done"
    and settled: "finally_clause self (except_clauses rt self (try_body rt self (enter rq))) = ?done"
    by (simp_all add: handle_request_def body)
  have "filter is_response_middleware t = []" "filter is_callback t = []"
    using request_middleware_filter [OF a(2), of is_response_middleware]
      request_middleware_filter [OF a(2), of is_callback] by simp_all
  then show "raised (finally_clause self (except_clauses rt self (try_body rt self (enter rq)))) = None
     \<and> raised (handle_request rt self rq wcb scb) = wcb PyNone
     \<and> \<not> cancelled (handle_request rt self rq wcb scb)
     \<and> trace (handle_request rt self rq wcb scb) =
         t @ [RouterGet rq', HandlerCall (dunder_name h) rq'', WriteCallback PyNone]
     \<and> filter is_response_middleware (trace (handle_request rt self rq wcb scb)) = []
     \<and> filter is_callback (trace (handle_request rt self rq wcb scb)) = [WriteCallback PyNone]"
    by (simp add: run settled output_router_def emit_def)
qed

theorem handler_returns_none_witness:
  "raised (handle_request python38 silent_server get_index accepting accepting) = None
   \<and> trace (handle_request python38 silent_server get_index accepting accepting) =
       [RouterGet (get_index\<lparr>app := Some ''app''\<rparr>), HandlerCall ''hello'' dispatched,
        WriteCallback PyNone]"
  using handler_returns_none
    [where rt = python38 and self = silent_server and rq = get_index
        and wcb = accepting and scb = accepting
      and rq' = "get_index\<lparr>app := Some ''app''\<rparr>" and t = "[]" and u = PyNone
      and h = silent and args = "[]" and kwargs = "[]" and uri = "Some ''/''"
      and rq'' = dispatched]
  by (simp add: silent_server_def silent_def hello_server_def hello_def
        run_request_middleware_def endpoint_name_def build_endpoint_name_def
        dispatched_def get_index_def accepting_def)

end
